theory Spec2Isabelle
  imports Main
begin

section \<open>JavaScript values read by the statistics client\<close>

text \<open>
  The upstream payloads are parsed JSON. The TypeScript interfaces declare every counter
  as \<open>number\<close>, and nothing checks that at run time, so a counter read from a payload is
  a number, \<open>null\<close>, or \<open>undefined\<close> (the property is absent). A number of JavaScript
  is an IEEE double. Counters are counts: the numbers of the model are the doubles whose
  value is an integer, \<open>Num n\<close> for the double of value \<open>n\<close>, the two infinities, and
  \<open>NaN\<close>. A counter that is a fraction, a string, a boolean or a nested value has no
  value in this model.
\<close>

datatype jsval = Undefined | Null | Num int | NaN | PosInfinity | NegInfinity

text \<open>\<open>ToNumber\<close> of ECMAScript on these values.\<close>

fun toNumber :: "jsval \<Rightarrow> jsval" where
  "toNumber Undefined = NaN"
| "toNumber Null = Num 0"
| "toNumber v = v"

text \<open>
  The double nearest to an integer, ties to the even significand. Every integer below
  \<open>2 ^ 53\<close> in magnitude is a double. A larger one has more than 53 bits: it is rounded
  to a multiple of \<open>2 ^ (bit_length a - 53)\<close>, and to an infinity from \<open>2 ^ 1024\<close> on.
\<close>

fun bit_length :: "nat \<Rightarrow> nat" where
  "bit_length n = (if n = 0 then 0 else Suc (bit_length (n div 2)))"

declare bit_length.simps [simp del]

definition round_double :: "int \<Rightarrow> jsval" where
  "round_double n =
     (let a = nat \<bar>n\<bar> in
      if a < 2 ^ 53 then Num n
      else
        (let u = 2 ^ (bit_length a - 53);
             q = a div u;
             r = a mod u;
             q' = (if 2 * r < u then q else if u < 2 * r then q + 1
                   else if even q then q else q + 1);
             m = q' * u
         in if 2 ^ 1024 \<le> m then (if 0 < n then PosInfinity else NegInfinity)
            else Num (if 0 < n then int m else - int m)))"

text \<open>
  The binary \<open>+\<close> of JavaScript on these values: the operands are converted to numbers,
  and the sum of two doubles is the double nearest to their exact sum.
\<close>

fun js_add :: "jsval \<Rightarrow> jsval \<Rightarrow> jsval" where
  "js_add a b =
     (case toNumber a of
        Num x \<Rightarrow>
          (case toNumber b of
             Num y \<Rightarrow> round_double (x + y)
           | PosInfinity \<Rightarrow> PosInfinity
           | NegInfinity \<Rightarrow> NegInfinity
           | _ \<Rightarrow> NaN)
      | PosInfinity \<Rightarrow>
          (case toNumber b of Num y \<Rightarrow> PosInfinity | PosInfinity \<Rightarrow> PosInfinity | _ \<Rightarrow> NaN)
      | NegInfinity \<Rightarrow>
          (case toNumber b of Num y \<Rightarrow> NegInfinity | NegInfinity \<Rightarrow> NegInfinity | _ \<Rightarrow> NaN)
      | _ \<Rightarrow> NaN)"

text \<open>The operator \<open>a ?? b\<close>: \<open>b\<close> when \<open>a\<close> is \<open>null\<close> or \<open>undefined\<close>.\<close>

fun nullish_or :: "jsval \<Rightarrow> jsval \<Rightarrow> jsval" where
  "nullish_or Undefined d = d"
| "nullish_or Null d = d"
| "nullish_or v d = v"

text \<open>
  A payload is a parsed JSON object: a finite map from property names to values.
  Reading a property that the object does not have gives \<open>undefined\<close>. (A \<open>stats\<close>
  value that is not an object, such as a number, has none of the counters read here and
  behaves as the empty object.)
\<close>

type_synonym payload = "string \<Rightarrow> jsval option"

definition get_prop :: "payload \<Rightarrow> string \<Rightarrow> jsval" where
  "get_prop p k = (case p k of None \<Rightarrow> Undefined | Some v \<Rightarrow> v)"

text \<open>Truthiness of a value of type \<open>string | null | undefined\<close>.\<close>

fun truthy :: "string option \<Rightarrow> bool" where
  "truthy None = False"
| "truthy (Some s) = (s \<noteq> [])"

text \<open>\<open>s || d\<close> for a string default \<open>d\<close>.\<close>

fun or_default :: "string option \<Rightarrow> string \<Rightarrow> string" where
  "or_default None d = d"
| "or_default (Some s) d = (if s = [] then d else s)"

text \<open>\<open>s || null\<close>.\<close>

fun or_null :: "string option \<Rightarrow> string option" where
  "or_null None = None"
| "or_null (Some s) = (if s = [] then None else Some s)"

text \<open>The decimal rendering of a non-negative integer in a template literal.\<close>

definition digit_char :: "nat \<Rightarrow> char" where
  "digit_char n = ''0123456789'' ! (n mod 10)"

fun string_of_nat :: "nat \<Rightarrow> string" where
  "string_of_nat n =
     (if n < 10 then [digit_char n] else string_of_nat (n div 10) @ [digit_char (n mod 10)])"

declare string_of_nat.simps [simp del]

section \<open>Configuration: \<open>process.env\<close>\<close>

record process_env =
  env_APOLLO_SERVICE_URL :: "string option"
  env_EMAILGENERATION_SERVICE_URL :: "string option"
  env_POSTMARK_SERVICE_URL :: "string option"
  env_INSTANTLY_SERVICE_URL :: "string option"
  env_APOLLO_SERVICE_API_KEY :: "string option"
  env_EMAILGENERATION_SERVICE_API_KEY :: "string option"
  env_POSTMARK_SERVICE_API_KEY :: "string option"
  env_INSTANTLY_SERVICE_API_KEY :: "string option"

definition APOLLO_SERVICE_URL :: "process_env \<Rightarrow> string" where
  "APOLLO_SERVICE_URL env = or_default (env_APOLLO_SERVICE_URL env) ''http://localhost:3003''"

definition EMAILGENERATION_SERVICE_URL :: "process_env \<Rightarrow> string" where
  "EMAILGENERATION_SERVICE_URL env =
     or_default (env_EMAILGENERATION_SERVICE_URL env) ''http://localhost:3004''"

definition POSTMARK_SERVICE_URL :: "process_env \<Rightarrow> string" where
  "POSTMARK_SERVICE_URL env = or_default (env_POSTMARK_SERVICE_URL env) ''http://localhost:3006''"

definition INSTANTLY_SERVICE_URL :: "process_env \<Rightarrow> string" where
  "INSTANTLY_SERVICE_URL env = or_default (env_INSTANTLY_SERVICE_URL env) ''http://localhost:3007''"

definition APOLLO_SERVICE_API_KEY :: "process_env \<Rightarrow> string option" where
  "APOLLO_SERVICE_API_KEY env = env_APOLLO_SERVICE_API_KEY env"

definition EMAILGENERATION_SERVICE_API_KEY :: "process_env \<Rightarrow> string option" where
  "EMAILGENERATION_SERVICE_API_KEY env = env_EMAILGENERATION_SERVICE_API_KEY env"

definition POSTMARK_SERVICE_API_KEY :: "process_env \<Rightarrow> string option" where
  "POSTMARK_SERVICE_API_KEY env = env_POSTMARK_SERVICE_API_KEY env"

definition INSTANTLY_SERVICE_API_KEY :: "process_env \<Rightarrow> string option" where
  "INSTANTLY_SERVICE_API_KEY env = env_INSTANTLY_SERVICE_API_KEY env"

section \<open>The network: \<open>fetch\<close>\<close>

text \<open>
  A request as \<open>fetch\<close> receives it. The body is always \<open>JSON.stringify({ runIds })\<close>,
  so it is represented by the list of run identifiers.
\<close>

record request =
  url :: string
  http_method :: string
  headers :: "(string \<times> string) list"
  body :: "string list"

text \<open>
  A value that \<open>fetch\<close>, \<open>response.json()\<close> or a property read can throw: an \<open>Error\<close>
  with its message and, when it has a \<open>cause\<close> property, the \<open>code\<close> of the cause
  (if any); or a value that is not an \<open>Error\<close>.
\<close>

datatype js_cause = Cause "string option"

datatype js_thrown = JsError string "js_cause option" | NonError

text \<open>
  What \<open>data.stats\<close> reads from the parsed body \<open>data\<close>: nothing, \<open>null\<close>, or a
  value. The body itself may be JSON \<open>null\<close>, from which no property can be read.
\<close>

datatype 'p stats_field = Absent | IsNull | Present 'p

datatype 'p json_body = NullBody | Body "'p stats_field"

record 'p response =
  ok :: bool
  status :: nat
  json :: "js_thrown + 'p json_body"

text \<open>
  The environment answers the \<open>n\<close>-th request issued so far either by rejecting
  (\<open>Inl\<close>) or with a response. The log of issued requests is threaded through every
  function that calls \<open>fetch\<close>; the calls of one \<open>Promise.all\<close> are issued in the
  order of its array, each before its function first suspends.
\<close>

type_synonym 'p network = "nat \<Rightarrow> request \<Rightarrow> js_thrown + 'p response"

definition fetch ::
  "'p network \<Rightarrow> request list \<Rightarrow> request \<Rightarrow> (js_thrown + 'p response) \<times> request list" where
  "fetch net log req = (net (length log) req, log @ [req])"

text \<open>The \<open>TypeError\<close> of reading \<open>stats\<close> from \<open>null\<close>.\<close>

definition null_read_error :: js_thrown where
  "null_read_error = JsError ''Cannot read properties of null (reading 'stats')'' None"

section \<open>The upstream stat client: \<open>fetchStats\<close>\<close>

record StatsError =
  service :: string
  error :: string

datatype 'a ServiceResult = Ok 'a | Fail string string

fun is_ok :: "'a ServiceResult \<Rightarrow> bool" where
  "is_ok (Ok d) = True"
| "is_ok (Fail s e) = False"

text \<open>The message computed by the \<open>catch\<close> blocks of \<open>fetchStats\<close> and \<open>getStatsByModel\<close>.\<close>

definition catch_msg :: "js_thrown \<Rightarrow> string" where
  "catch_msg e =
     (let cause = (case e of JsError m c \<Rightarrow> c | NonError \<Rightarrow> None) in
      if (case cause of Some (Cause (Some c)) \<Rightarrow> c = ''ECONNREFUSED'' | _ \<Rightarrow> False)
      then ''connection refused''
      else (case e of JsError m c \<Rightarrow> m | NonError \<Rightarrow> ''unknown error''))"

text \<open>The headers object built by \<open>fetchStats\<close>; the key is added when it is truthy.\<close>

definition stats_headers :: "string \<Rightarrow> string option \<Rightarrow> (string \<times> string) list" where
  "stats_headers clerkOrgId apiKey =
     [(''Content-Type'', ''application/json''), (''X-Clerk-Org-Id'', clerkOrgId)]
     @ (if truthy apiKey then [(''X-API-Key'', the apiKey)] else [])"

text \<open>The \<open>try\<close> block of \<open>fetchStats\<close>: \<open>Inl\<close> is a thrown value.\<close>

text \<open>The request that \<open>fetchStats\<close> passes to \<open>fetch\<close>.\<close>

definition stats_request :: "string \<Rightarrow> string \<Rightarrow> string list \<Rightarrow> string option \<Rightarrow> request" where
  "stats_request u clerkOrgId b apiKey =
     \<lparr>url = u, http_method = ''POST'', headers = stats_headers clerkOrgId apiKey, body = b\<rparr>"

definition fetchStats_try ::
  "'p network \<Rightarrow> request list \<Rightarrow> string \<Rightarrow> string \<Rightarrow> string \<Rightarrow> string list \<Rightarrow> string option
     \<Rightarrow> (js_thrown + 'p ServiceResult) \<times> request list" where
  "fetchStats_try net log u serviceName clerkOrgId b apiKey =
     (let (outcome, log') = fetch net log (stats_request u clerkOrgId b apiKey)
      in (case outcome of
            Inl thrown \<Rightarrow> Inl thrown
          | Inr response \<Rightarrow>
              if \<not> ok response
              then Inr (Fail serviceName (''HTTP '' @ string_of_nat (status response)))
              else (case json response of
                      Inl thrown \<Rightarrow> Inl thrown
                    | Inr NullBody \<Rightarrow> Inl null_read_error
                    | Inr (Body Absent) \<Rightarrow> Inr (Fail serviceName ''no stats in response'')
                    | Inr (Body IsNull) \<Rightarrow> Inr (Fail serviceName ''no stats in response'')
                    | Inr (Body (Present d)) \<Rightarrow> Inr (Ok d)),
          log'))"

definition fetchStats ::
  "'p network \<Rightarrow> request list \<Rightarrow> string \<Rightarrow> string \<Rightarrow> string \<Rightarrow> string list \<Rightarrow> string option
     \<Rightarrow> 'p ServiceResult \<times> request list" where
  "fetchStats net log u serviceName clerkOrgId b apiKey =
     (case fetchStats_try net log u serviceName clerkOrgId b apiKey of
        (Inr result, log') \<Rightarrow> (result, log')
      | (Inl thrown, log') \<Rightarrow> (Fail serviceName (catch_msg thrown), log'))"

section \<open>Aggregated statistics: \<open>getAggregatedStats\<close>\<close>

record AggregatedStats =
  leadsFound :: jsval
  emailsGenerated :: jsval
  emailsSent :: jsval
  emailsOpened :: jsval
  emailsClicked :: jsval
  emailsReplied :: jsval
  emailsBounced :: jsval
  repliesWillingToMeet :: jsval
  repliesInterested :: jsval
  repliesNotInterested :: jsval
  repliesOutOfOffice :: jsval
  repliesUnsubscribe :: jsval

text \<open>
  \<open>AggregatedStatsResult\<close> and \<open>ModelStatsResult\<close> are the same shape, a \<open>stats\<close> value
  and a list of errors.
\<close>

record 's StatsResult =
  stats :: 's
  errors :: "StatsError list"

type_synonym AggregatedStatsResult = "AggregatedStats StatsResult"

text \<open>\<open>EMPTY_SENDING_STATS\<close>, an \<open>EmailSendingStats\<close> object with every counter 0.\<close>

definition EMPTY_SENDING_STATS :: payload where
  "EMPTY_SENDING_STATS =
     map_of [(''emailsSent'', Num 0), (''emailsOpened'', Num 0), (''emailsClicked'', Num 0),
             (''emailsReplied'', Num 0), (''emailsBounced'', Num 0),
             (''repliesWillingToMeet'', Num 0), (''repliesInterested'', Num 0),
             (''repliesNotInterested'', Num 0), (''repliesOutOfOffice'', Num 0),
             (''repliesUnsubscribe'', Num 0)]"

definition addSendingStats :: "payload \<Rightarrow> payload \<Rightarrow> payload" where
  "addSendingStats a b =
     map_of
       [(''emailsSent'', js_add (get_prop a ''emailsSent'') (get_prop b ''emailsSent'')),
        (''emailsOpened'', js_add (get_prop a ''emailsOpened'') (get_prop b ''emailsOpened'')),
        (''emailsClicked'', js_add (get_prop a ''emailsClicked'') (get_prop b ''emailsClicked'')),
        (''emailsReplied'', js_add (get_prop a ''emailsReplied'') (get_prop b ''emailsReplied'')),
        (''emailsBounced'', js_add (get_prop a ''emailsBounced'') (get_prop b ''emailsBounced'')),
        (''repliesWillingToMeet'',
           js_add (get_prop a ''repliesWillingToMeet'') (get_prop b ''repliesWillingToMeet'')),
        (''repliesInterested'',
           js_add (get_prop a ''repliesInterested'') (get_prop b ''repliesInterested'')),
        (''repliesNotInterested'',
           js_add (get_prop a ''repliesNotInterested'') (get_prop b ''repliesNotInterested'')),
        (''repliesOutOfOffice'',
           js_add (get_prop a ''repliesOutOfOffice'') (get_prop b ''repliesOutOfOffice'')),
        (''repliesUnsubscribe'',
           js_add (get_prop a ''repliesUnsubscribe'') (get_prop b ''repliesUnsubscribe''))]"

definition emptyStats :: AggregatedStats where
  "emptyStats =
     \<lparr>leadsFound = Num 0, emailsGenerated = Num 0,
      emailsSent = Num 0, emailsOpened = Num 0, emailsClicked = Num 0, emailsReplied = Num 0,
      emailsBounced = Num 0,
      repliesWillingToMeet = Num 0, repliesInterested = Num 0, repliesNotInterested = Num 0,
      repliesOutOfOffice = Num 0, repliesUnsubscribe = Num 0\<rparr>"

text \<open>
  The four calls of the \<open>Promise.all\<close>, in the order of its array: apollo, emailgen,
  postmark, instantly. \<open>fetchStats\<close> never rejects, so the \<open>Promise.all\<close> resolves to
  the four results.
\<close>

definition dispatchAll ::
  "process_env \<Rightarrow> payload network \<Rightarrow> request list \<Rightarrow> string list \<Rightarrow> string
     \<Rightarrow> (payload ServiceResult \<times> payload ServiceResult \<times> payload ServiceResult
          \<times> payload ServiceResult) \<times> request list" where
  "dispatchAll env net log runIds clerkOrgId =
     (let (apolloResult, log1) =
            fetchStats net log (APOLLO_SERVICE_URL env @ ''/stats'') ''apollo'' clerkOrgId runIds
              (APOLLO_SERVICE_API_KEY env);
          (emailGenResult, log2) =
            fetchStats net log1 (EMAILGENERATION_SERVICE_URL env @ ''/stats'') ''emailgen''
              clerkOrgId runIds (EMAILGENERATION_SERVICE_API_KEY env);
          (postmarkResult, log3) =
            fetchStats net log2 (POSTMARK_SERVICE_URL env @ ''/stats'') ''postmark'' clerkOrgId
              runIds (POSTMARK_SERVICE_API_KEY env);
          (instantlyResult, log4) =
            fetchStats net log3 (INSTANTLY_SERVICE_URL env @ ''/stats'') ''instantly'' clerkOrgId
              runIds (INSTANTLY_SERVICE_API_KEY env)
      in ((apolloResult, emailGenResult, postmarkResult, instantlyResult), log4))"

text \<open>\<open>if (!r.ok) errors.push({ service: r.service, error: r.error })\<close>.\<close>

fun push_error :: "StatsError list \<Rightarrow> 'a ServiceResult \<Rightarrow> StatsError list" where
  "push_error errs (Ok d) = errs"
| "push_error errs (Fail s e) = errs @ [\<lparr>service = s, error = e\<rparr>]"

text \<open>The part of \<open>getAggregatedStats\<close> after the \<open>Promise.all\<close>.\<close>

definition collect ::
  "payload ServiceResult \<Rightarrow> payload ServiceResult \<Rightarrow> payload ServiceResult
     \<Rightarrow> payload ServiceResult \<Rightarrow> AggregatedStatsResult" where
  "collect apolloResult emailGenResult postmarkResult instantlyResult =
     (let errs0 = [];
          errs1 = push_error errs0 apolloResult;
          errs2 = push_error errs1 emailGenResult;
          errs3 = push_error errs2 postmarkResult;
          errs4 = push_error errs3 instantlyResult;
          postmarkData = (case postmarkResult of Ok d \<Rightarrow> d | Fail s e \<Rightarrow> EMPTY_SENDING_STATS);
          instantlyData = (case instantlyResult of Ok d \<Rightarrow> d | Fail s e \<Rightarrow> EMPTY_SENDING_STATS);
          emailStats = addSendingStats postmarkData instantlyData
      in \<lparr>stats =
            \<lparr>leadsFound =
               (case apolloResult of
                  Ok d \<Rightarrow> nullish_or (get_prop d ''leadsFound'') (Num 0)
                | Fail s e \<Rightarrow> Num 0),
             emailsGenerated =
               (case emailGenResult of
                  Ok d \<Rightarrow> nullish_or (get_prop d ''emailsGenerated'') (Num 0)
                | Fail s e \<Rightarrow> Num 0),
             emailsSent = get_prop emailStats ''emailsSent'',
             emailsOpened = get_prop emailStats ''emailsOpened'',
             emailsClicked = get_prop emailStats ''emailsClicked'',
             emailsReplied = get_prop emailStats ''emailsReplied'',
             emailsBounced = get_prop emailStats ''emailsBounced'',
             repliesWillingToMeet = get_prop emailStats ''repliesWillingToMeet'',
             repliesInterested = get_prop emailStats ''repliesInterested'',
             repliesNotInterested = get_prop emailStats ''repliesNotInterested'',
             repliesOutOfOffice = get_prop emailStats ''repliesOutOfOffice'',
             repliesUnsubscribe = get_prop emailStats ''repliesUnsubscribe''\<rparr>,
          errors = errs4\<rparr>)"

definition getAggregatedStats ::
  "process_env \<Rightarrow> payload network \<Rightarrow> request list \<Rightarrow> string list \<Rightarrow> string
     \<Rightarrow> AggregatedStatsResult \<times> request list" where
  "getAggregatedStats env net log runIds clerkOrgId =
     (if length runIds = 0 then (\<lparr>stats = emptyStats, errors = []\<rparr>, log)
      else
        (let ((apolloResult, emailGenResult, postmarkResult, instantlyResult), log') =
               dispatchAll env net log runIds clerkOrgId
         in (collect apolloResult emailGenResult postmarkResult instantlyResult, log')))"

section \<open>Statistics by model: \<open>getStatsByModel\<close>\<close>

record ModelStats =
  model :: string
  count :: int
  runIds :: "string list"

type_synonym ModelStatsResult = "ModelStats list StatsResult"

text \<open>The request that \<open>getStatsByModel\<close> passes to \<open>fetch\<close>.\<close>

definition by_model_request :: "process_env \<Rightarrow> string list \<Rightarrow> request" where
  "by_model_request env ids =
     \<lparr>url = EMAILGENERATION_SERVICE_URL env @ ''/stats/by-model'',
      http_method = ''POST'',
      headers = [(''Content-Type'', ''application/json'')]
                @ (if truthy (EMAILGENERATION_SERVICE_API_KEY env)
                   then [(''X-API-Key'', the (EMAILGENERATION_SERVICE_API_KEY env))] else []),
      body = ids\<rparr>"

text \<open>
  The \<open>try\<close> block of \<open>getStatsByModel\<close>: \<open>Inl\<close> is a thrown value. A \<open>stats\<close>
  that is present is an array of \<open>ModelStats\<close>, as the interface declares, and an
  array is truthy: \<open>data.stats || []\<close> is that array, and the empty list when \<open>stats\<close>
  is absent or \<open>null\<close>.
\<close>

definition getStatsByModel_try ::
  "process_env \<Rightarrow> ModelStats list network \<Rightarrow> request list \<Rightarrow> string list
     \<Rightarrow> (js_thrown + ModelStatsResult) \<times> request list" where
  "getStatsByModel_try env net log ids =
     (let (outcome, log') = fetch net log (by_model_request env ids)
      in (case outcome of
            Inl thrown \<Rightarrow> Inl thrown
          | Inr response \<Rightarrow>
              if \<not> ok response
              then Inr \<lparr>stats = [],
                        errors = [\<lparr>service = ''emailgen'',
                                   error = ''HTTP '' @ string_of_nat (status response)\<rparr>]\<rparr>
              else (case json response of
                      Inl thrown \<Rightarrow> Inl thrown
                    | Inr NullBody \<Rightarrow> Inl null_read_error
                    | Inr (Body Absent) \<Rightarrow> Inr \<lparr>stats = [], errors = []\<rparr>
                    | Inr (Body IsNull) \<Rightarrow> Inr \<lparr>stats = [], errors = []\<rparr>
                    | Inr (Body (Present d)) \<Rightarrow> Inr \<lparr>stats = d, errors = []\<rparr>),
          log'))"

definition getStatsByModel ::
  "process_env \<Rightarrow> ModelStats list network \<Rightarrow> request list \<Rightarrow> string list
     \<Rightarrow> ModelStatsResult \<times> request list" where
  "getStatsByModel env net log ids =
     (if length ids = 0 then (\<lparr>stats = [], errors = []\<rparr>, log)
      else
        (case getStatsByModel_try env net log ids of
           (Inr result, log') \<Rightarrow> (result, log')
         | (Inl thrown, log') \<Rightarrow>
             (\<lparr>stats = [], errors = [\<lparr>service = ''emailgen'', error = catch_msg thrown\<rparr>]\<rparr>,
              log')))"

section \<open>Companies of a campaign: \<open>aggregateCompaniesFromLeads\<close>\<close>

record LeadData =
  lead_id :: string
  firstName :: "string option"
  lastName :: "string option"
  email :: "string option"
  title :: "string option"
  organizationName :: "string option"
  organizationDomain :: "string option"
  organizationIndustry :: "string option"
  organizationSize :: "string option"
  linkedinUrl :: "string option"
  enrichmentRunId :: "string option"
  createdAt :: string

text \<open>The value type of \<open>companyMap\<close>, and \<open>CompanyData\<close>, which adds the \<open>id\<close>.\<close>

record company_entry =
  name :: string
  domain :: "string option"
  industry :: "string option"
  employeeCount :: "string option"
  leadsCount :: nat
  enrichmentRunIds :: "string list"

record CompanyData = company_entry +
  company_id :: string

text \<open>
  A JavaScript \<open>Map\<close> keeps its keys in insertion order, and \<open>entries()\<close> lists them
  in that order: the map is an association list. \<open>set\<close> on a key that is present
  replaces the value where it stands; on a new key it appends. \<open>get\<close> is \<open>map_of\<close>.
\<close>

fun map_set :: "'k \<Rightarrow> 'v \<Rightarrow> ('k \<times> 'v) list \<Rightarrow> ('k \<times> 'v) list" where
  "map_set k v [] = [(k, v)]"
| "map_set k v ((k', v') # m) = (if k' = k then (k, v) # m else (k', v') # map_set k v m)"

text \<open>\<open>r ? [r] : []\<close> for a run identifier of type \<open>string | null\<close>.\<close>

fun run_id_list :: "string option \<Rightarrow> string list" where
  "run_id_list None = []"
| "run_id_list (Some r) = (if r = [] then [] else [r])"

text \<open>
  One iteration of the loop over the leads. The entry found by \<open>get\<close> is mutated in
  place, which leaves it at its position in the map.
\<close>

definition visit :: "LeadData \<Rightarrow> (string \<times> company_entry) list \<Rightarrow> (string \<times> company_entry) list" where
  "visit lead companyMap =
     (case organizationName lead of
        None \<Rightarrow> companyMap
      | Some orgName \<Rightarrow>
          if orgName = [] then companyMap
          else (case map_of companyMap orgName of
                  Some existing \<Rightarrow>
                    map_set orgName
                      (existing\<lparr>leadsCount := leadsCount existing + 1,
                                enrichmentRunIds :=
                                  enrichmentRunIds existing @ run_id_list (enrichmentRunId lead)\<rparr>)
                      companyMap
                | None \<Rightarrow>
                    map_set orgName
                      \<lparr>name = orgName,
                       domain = or_null (organizationDomain lead),
                       industry = or_null (organizationIndustry lead),
                       employeeCount = or_null (organizationSize lead),
                       leadsCount = 1,
                       enrichmentRunIds = run_id_list (enrichmentRunId lead)\<rparr>
                      companyMap))"

fun group_leads ::
  "LeadData list \<Rightarrow> (string \<times> company_entry) list \<Rightarrow> (string \<times> company_entry) list" where
  "group_leads [] companyMap = companyMap"
| "group_leads (lead # leads) companyMap = group_leads leads (visit lead companyMap)"

text \<open>\<open>{ id: `company-${index}`, ...data }\<close>.\<close>

definition with_id :: "nat \<Rightarrow> company_entry \<Rightarrow> CompanyData" where
  "with_id index d =
     \<lparr>name = name d, domain = domain d, industry = industry d,
      employeeCount = employeeCount d, leadsCount = leadsCount d,
      enrichmentRunIds = enrichmentRunIds d,
      company_id = ''company-'' @ string_of_nat index\<rparr>"

definition aggregateCompaniesFromLeads :: "LeadData list \<Rightarrow> CompanyData list" where
  "aggregateCompaniesFromLeads leads =
     map (\<lambda>(index, (n, d)). with_id index d) (enumerate 0 (group_leads leads []))"

section \<open>Notions used to state the properties\<close>

text \<open>
  What \<open>fetchStats\<close> returns, as a function of what its one \<open>fetch\<close> did
  (lemma \<open>fetchStats_eq\<close> below proves that this is so).
\<close>

definition classify :: "string \<Rightarrow> js_thrown + 'p response \<Rightarrow> 'p ServiceResult" where
  "classify serviceName outcome =
     (case outcome of
        Inl thrown \<Rightarrow> Fail serviceName (catch_msg thrown)
      | Inr response \<Rightarrow>
          if \<not> ok response then Fail serviceName (''HTTP '' @ string_of_nat (status response))
          else (case json response of
                  Inl thrown \<Rightarrow> Fail serviceName (catch_msg thrown)
                | Inr NullBody \<Rightarrow> Fail serviceName (catch_msg null_read_error)
                | Inr (Body Absent) \<Rightarrow> Fail serviceName ''no stats in response''
                | Inr (Body IsNull) \<Rightarrow> Fail serviceName ''no stats in response''
                | Inr (Body (Present d)) \<Rightarrow> Ok d))"

text \<open>The four requests of one aggregation, in dispatch order.\<close>

definition upstream_requests :: "process_env \<Rightarrow> string list \<Rightarrow> string \<Rightarrow> request list" where
  "upstream_requests env ids clerkOrgId =
     [stats_request (APOLLO_SERVICE_URL env @ ''/stats'') clerkOrgId ids (APOLLO_SERVICE_API_KEY env),
      stats_request (EMAILGENERATION_SERVICE_URL env @ ''/stats'') clerkOrgId ids
        (EMAILGENERATION_SERVICE_API_KEY env),
      stats_request (POSTMARK_SERVICE_URL env @ ''/stats'') clerkOrgId ids
        (POSTMARK_SERVICE_API_KEY env),
      stats_request (INSTANTLY_SERVICE_URL env @ ''/stats'') clerkOrgId ids
        (INSTANTLY_SERVICE_API_KEY env)]"

text \<open>
  The upstream calls that one call of \<open>getAggregatedStats\<close> dispatches, each with the
  name of its provider and its result: none for an empty list of run identifiers.
\<close>

definition outcomes ::
  "process_env \<Rightarrow> payload network \<Rightarrow> request list \<Rightarrow> string list \<Rightarrow> string
     \<Rightarrow> (string \<times> payload ServiceResult) list" where
  "outcomes env net log ids clerkOrgId =
     (if length ids = 0 then []
      else (case dispatchAll env net log ids clerkOrgId of
              ((a, e, p, i), log') \<Rightarrow>
                [(''apollo'', a), (''emailgen'', e), (''postmark'', p), (''instantly'', i)]))"

fun reason :: "'a ServiceResult \<Rightarrow> string" where
  "reason (Fail s e) = e"
| "reason (Ok d) = []"

text \<open>
  What a provider contributes to a counter: the value its payload has for it when the
  provider succeeded, and zero when it failed.
\<close>

definition contribution :: "payload ServiceResult \<Rightarrow> string \<Rightarrow> jsval" where
  "contribution r k = (case r of Ok d \<Rightarrow> get_prop d k | Fail s e \<Rightarrow> Num 0)"

text \<open>The ten email-sending counters, each with its field of \<open>AggregatedStats\<close>.\<close>

definition sending_counters :: "(string \<times> (AggregatedStats \<Rightarrow> jsval)) list" where
  "sending_counters =
     [(''emailsSent'', emailsSent), (''emailsOpened'', emailsOpened),
      (''emailsClicked'', emailsClicked), (''emailsReplied'', emailsReplied),
      (''emailsBounced'', emailsBounced), (''repliesWillingToMeet'', repliesWillingToMeet),
      (''repliesInterested'', repliesInterested),
      (''repliesNotInterested'', repliesNotInterested),
      (''repliesOutOfOffice'', repliesOutOfOffice),
      (''repliesUnsubscribe'', repliesUnsubscribe)]"

text \<open>A response with a successful status whose \<open>stats\<close> is absent or \<open>null\<close>.\<close>

definition no_stats :: "'p response \<Rightarrow> bool" where
  "no_stats response \<longleftrightarrow>
     ok response \<and> (json response = Inr (Body Absent) \<or> json response = Inr (Body IsNull))"

text \<open>
  An upstream call succeeds when \<open>fetch\<close> resolves with a response whose status is a
  success and whose body has a \<open>stats\<close> that is neither absent nor \<open>null\<close>.
\<close>

definition answers_stats :: "js_thrown + 'p response \<Rightarrow> bool" where
  "answers_stats outcome =
     (case outcome of
        Inl thrown \<Rightarrow> False
      | Inr response \<Rightarrow>
          ok response
          \<and> (case json response of Inr (Body (Present d)) \<Rightarrow> True | _ \<Rightarrow> False))"







subsection \<open>The fixtures of \<open>tests/unit/service-client.test.ts\<close>\<close>

definition okResponse :: "'p \<Rightarrow> 'p response" where
  "okResponse s = \<lparr>ok = True, status = 200, json = Inr (Body (Present s))\<rparr>"

definition errorResponse :: "nat \<Rightarrow> 'p response" where
  "errorResponse n = \<lparr>ok = False, status = n, json = Inr (Body Absent)\<rparr>"

definition emptyOk :: "'p response" where
  "emptyOk = \<lparr>ok = True, status = 200, json = Inr (Body Absent)\<rparr>"

definition nullStats :: "'p response" where
  "nullStats = \<lparr>ok = True, status = 200, json = Inr (Body IsNull)\<rparr>"

definition connError :: js_thrown where
  "connError = JsError ''fetch failed'' (Some (Cause (Some ''ECONNREFUSED'')))"

definition APOLLO_STATS :: payload where
  "APOLLO_STATS =
     map_of [(''leadsFound'', Num 10), (''searchesCount'', Num 2),
             (''totalPeopleFromSearches'', Num 50)]"

definition EMAILGEN_STATS :: payload where
  "EMAILGEN_STATS = map_of [(''emailsGenerated'', Num 8)]"

definition POSTMARK_STATS :: payload where
  "POSTMARK_STATS =
     map_of [(''emailsSent'', Num 5), (''emailsOpened'', Num 3), (''emailsClicked'', Num 1),
             (''emailsReplied'', Num 1), (''emailsBounced'', Num 0),
             (''repliesWillingToMeet'', Num 1), (''repliesInterested'', Num 0),
             (''repliesNotInterested'', Num 0), (''repliesOutOfOffice'', Num 0),
             (''repliesUnsubscribe'', Num 0)]"

definition INSTANTLY_STATS :: payload where
  "INSTANTLY_STATS =
     map_of [(''emailsSent'', Num 4), (''emailsOpened'', Num 2), (''emailsClicked'', Num 1),
             (''emailsReplied'', Num 0), (''emailsBounced'', Num 1),
             (''repliesWillingToMeet'', Num 0), (''repliesInterested'', Num 0),
             (''repliesNotInterested'', Num 0), (''repliesOutOfOffice'', Num 0),
             (''repliesUnsubscribe'', Num 0)]"



text \<open>
  \<open>mockResolvedValueOnce\<close> and \<open>mockRejectedValueOnce\<close> queue one outcome per call. A
  mock with nothing queued returns \<open>undefined\<close>, and reading \<open>ok\<close> from it throws.
\<close>

definition mockFetch :: "(js_thrown + 'p response) list \<Rightarrow> 'p network" where
  "mockFetch queued n req =
     (if n < length queued then queued ! n
      else Inl (JsError ''Cannot read properties of undefined (reading 'ok')'' None))"

text \<open>An environment in which none of the eight variables is set.\<close>

definition no_env :: process_env where
  "no_env =
     \<lparr>env_APOLLO_SERVICE_URL = None, env_EMAILGENERATION_SERVICE_URL = None,
      env_POSTMARK_SERVICE_URL = None, env_INSTANTLY_SERVICE_URL = None,
      env_APOLLO_SERVICE_API_KEY = None, env_EMAILGENERATION_SERVICE_API_KEY = None,
      env_POSTMARK_SERVICE_API_KEY = None, env_INSTANTLY_SERVICE_API_KEY = None\<rparr>"

subsection \<open>Companies\<close>

text \<open>The leads that bear an organisation name, in input order.\<close>

definition leads_of :: "string \<Rightarrow> LeadData list \<Rightarrow> LeadData list" where
  "leads_of n leads = filter (\<lambda>l. organizationName l = Some n) leads"

text \<open>
  The truthy run identifiers of a list of leads, in input order: those that are neither
  \<open>null\<close> nor the empty string.
\<close>

definition run_ids_of :: "LeadData list \<Rightarrow> string list" where
  "run_ids_of ls = concat (map (\<lambda>l. run_id_list (enrichmentRunId l)) ls)"

text \<open>
  The entry that a non-empty list of leads of one organisation, the first of which is
  \<open>hd ls\<close>, is expected to produce.
\<close>

definition entry_of :: "string \<Rightarrow> LeadData list \<Rightarrow> company_entry" where
  "entry_of n ls =
     \<lparr>name = n,
      domain = or_null (organizationDomain (hd ls)),
      industry = or_null (organizationIndustry (hd ls)),
      employeeCount = or_null (organizationSize (hd ls)),
      leadsCount = length ls,
      enrichmentRunIds = run_ids_of ls\<rparr>"

text \<open>
  The invariant of the loop, after the leads \<open>seen\<close>: the keys are distinct, and the
  map holds, for exactly the non-empty names that occur among the leads seen, the entry
  expected from the leads of that name.
\<close>

definition grouped :: "(string \<times> company_entry) list \<Rightarrow> LeadData list \<Rightarrow> bool" where
  "grouped m seen \<longleftrightarrow>
     distinct (map fst m)
     \<and> (\<forall>n. map_of m n =
            (if n \<noteq> [] \<and> leads_of n seen \<noteq> [] then Some (entry_of n (leads_of n seen))
             else None))"

text \<open>Three leads: two of Acme, the first with empty strings, and one without organisation.\<close>

definition lead_acme_1 :: LeadData where
  "lead_acme_1 =
     \<lparr>lead_id = ''l1'', firstName = None, lastName = None, email = None, title = None,
      organizationName = Some ''Acme'', organizationDomain = Some '''',
      organizationIndustry = Some ''Software'', organizationSize = None, linkedinUrl = None,
      enrichmentRunId = Some '''', createdAt = ''2025-01-01''\<rparr>"

definition lead_acme_2 :: LeadData where
  "lead_acme_2 =
     \<lparr>lead_id = ''l2'', firstName = None, lastName = None, email = None, title = None,
      organizationName = Some ''Acme'', organizationDomain = Some ''acme.com'',
      organizationIndustry = None, organizationSize = Some ''50'', linkedinUrl = None,
      enrichmentRunId = Some ''run-2'', createdAt = ''2025-01-02''\<rparr>"

definition lead_no_org :: LeadData where
  "lead_no_org =
     \<lparr>lead_id = ''l3'', firstName = None, lastName = None, email = None, title = None,
      organizationName = None, organizationDomain = None,
      organizationIndustry = None, organizationSize = None, linkedinUrl = None,
      enrichmentRunId = Some ''run-3'', createdAt = ''2025-01-03''\<rparr>"

text \<open>The run identifiers of a list of leads that are not \<open>null\<close>, in input order.\<close>

definition non_null_run_ids :: "LeadData list \<Rightarrow> string list" where
  "non_null_run_ids ls =
     concat (map (\<lambda>l. case enrichmentRunId l of None \<Rightarrow> [] | Some r \<Rightarrow> [r]) ls)"

section \<open>Properties of the upstream stat client and the merge\<close>

lemma round_double_safe [simp]:
  assumes "\<bar>n\<bar> < 9007199254740992"
  shows "round_double n = Num n"
proof -
  have "nat \<bar>n\<bar> < 2 ^ 53" using assms by simp
  then show ?thesis by (simp only: round_double_def Let_def if_True)
qed




lemma fetchStats_eq:
  "fetchStats net log u s org b k =
     (classify s (net (length log) (stats_request u org b k)), log @ [stats_request u org b k])"
  by (simp add: fetchStats_def fetchStats_try_def fetch_def classify_def
      split: sum.splits json_body.splits stats_field.splits)

lemma is_ok_classify: "is_ok (classify s outcome) = answers_stats outcome"
  by (simp add: classify_def answers_stats_def
      split: sum.splits json_body.splits stats_field.splits)

lemma classify_service: "classify s out = Fail s' e \<Longrightarrow> s' = s"
  by (auto simp: classify_def split: sum.splits json_body.splits stats_field.splits if_splits)

lemma dispatchAll_eq:
  "dispatchAll env net log ids org =
     ((classify ''apollo'' (net (length log) (upstream_requests env ids org ! 0)),
       classify ''emailgen'' (net (length log + 1) (upstream_requests env ids org ! 1)),
       classify ''postmark'' (net (length log + 2) (upstream_requests env ids org ! 2)),
       classify ''instantly'' (net (length log + 3) (upstream_requests env ids org ! 3))),
      log @ upstream_requests env ids org)"
  by (simp add: dispatchAll_def fetchStats_eq upstream_requests_def numeral_3_eq_3)

lemma dispatchAll_service:
  assumes "dispatchAll env net log ids org = ((a, e, p, i), log')"
  shows "(a = Fail s x \<longrightarrow> s = ''apollo'') \<and> (e = Fail s x \<longrightarrow> s = ''emailgen'')
       \<and> (p = Fail s x \<longrightarrow> s = ''postmark'') \<and> (i = Fail s x \<longrightarrow> s = ''instantly'')"
  using assms unfolding dispatchAll_eq by (auto dest: classify_service)

lemma getAggregatedStats_nonempty:
  assumes "ids \<noteq> []" and "dispatchAll env net log ids org = ((a, e, p, i), log')"
  shows "getAggregatedStats env net log ids org = (collect a e p i, log')"
  using assms by (simp add: getAggregatedStats_def)

lemma collect_errors:
  "errors (collect a e p i) = push_error (push_error (push_error (push_error [] a) e) p) i"
  by (simp add: collect_def Let_def)

lemma get_prop_addSendingStats:
  "get_prop (addSendingStats x y) ''emailsSent'' = js_add (get_prop x ''emailsSent'') (get_prop y ''emailsSent'')"
  "get_prop (addSendingStats x y) ''emailsOpened'' = js_add (get_prop x ''emailsOpened'') (get_prop y ''emailsOpened'')"
  "get_prop (addSendingStats x y) ''emailsClicked'' = js_add (get_prop x ''emailsClicked'') (get_prop y ''emailsClicked'')"
  "get_prop (addSendingStats x y) ''emailsReplied'' = js_add (get_prop x ''emailsReplied'') (get_prop y ''emailsReplied'')"
  "get_prop (addSendingStats x y) ''emailsBounced'' = js_add (get_prop x ''emailsBounced'') (get_prop y ''emailsBounced'')"
  "get_prop (addSendingStats x y) ''repliesWillingToMeet'' = js_add (get_prop x ''repliesWillingToMeet'') (get_prop y ''repliesWillingToMeet'')"
  "get_prop (addSendingStats x y) ''repliesInterested'' = js_add (get_prop x ''repliesInterested'') (get_prop y ''repliesInterested'')"
  "get_prop (addSendingStats x y) ''repliesNotInterested'' = js_add (get_prop x ''repliesNotInterested'') (get_prop y ''repliesNotInterested'')"
  "get_prop (addSendingStats x y) ''repliesOutOfOffice'' = js_add (get_prop x ''repliesOutOfOffice'') (get_prop y ''repliesOutOfOffice'')"
  "get_prop (addSendingStats x y) ''repliesUnsubscribe'' = js_add (get_prop x ''repliesUnsubscribe'') (get_prop y ''repliesUnsubscribe'')"
  by (simp_all add: addSendingStats_def get_prop_def del: js_add.simps)

lemma get_prop_EMPTY:
  "get_prop EMPTY_SENDING_STATS ''emailsSent'' = Num 0"
  "get_prop EMPTY_SENDING_STATS ''emailsOpened'' = Num 0"
  "get_prop EMPTY_SENDING_STATS ''emailsClicked'' = Num 0"
  "get_prop EMPTY_SENDING_STATS ''emailsReplied'' = Num 0"
  "get_prop EMPTY_SENDING_STATS ''emailsBounced'' = Num 0"
  "get_prop EMPTY_SENDING_STATS ''repliesWillingToMeet'' = Num 0"
  "get_prop EMPTY_SENDING_STATS ''repliesInterested'' = Num 0"
  "get_prop EMPTY_SENDING_STATS ''repliesNotInterested'' = Num 0"
  "get_prop EMPTY_SENDING_STATS ''repliesOutOfOffice'' = Num 0"
  "get_prop EMPTY_SENDING_STATS ''repliesUnsubscribe'' = Num 0"
  by (simp_all add: EMPTY_SENDING_STATS_def get_prop_def)


lemma collect_leadsFound:
  "leadsFound (stats (collect a e p i)) = nullish_or (contribution a ''leadsFound'') (Num 0)"
  unfolding collect_def Let_def contribution_def
  by (cases a) simp_all

lemma collect_emailsGenerated:
  "emailsGenerated (stats (collect a e p i)) =
     nullish_or (contribution e ''emailsGenerated'') (Num 0)"
  unfolding collect_def Let_def contribution_def
  by (cases e) simp_all

lemma collect_emailsSent:
  "emailsSent (stats (collect a e p i)) =
     js_add (contribution p ''emailsSent'') (contribution i ''emailsSent'')"
  unfolding collect_def Let_def contribution_def
  by (cases p; cases i) (simp_all add: get_prop_addSendingStats get_prop_EMPTY del: js_add.simps)

lemma collect_emailsOpened:
  "emailsOpened (stats (collect a e p i)) =
     js_add (contribution p ''emailsOpened'') (contribution i ''emailsOpened'')"
  unfolding collect_def Let_def contribution_def
  by (cases p; cases i) (simp_all add: get_prop_addSendingStats get_prop_EMPTY del: js_add.simps)

lemma collect_emailsClicked:
  "emailsClicked (stats (collect a e p i)) =
     js_add (contribution p ''emailsClicked'') (contribution i ''emailsClicked'')"
  unfolding collect_def Let_def contribution_def
  by (cases p; cases i) (simp_all add: get_prop_addSendingStats get_prop_EMPTY del: js_add.simps)

lemma collect_emailsReplied:
  "emailsReplied (stats (collect a e p i)) =
     js_add (contribution p ''emailsReplied'') (contribution i ''emailsReplied'')"
  unfolding collect_def Let_def contribution_def
  by (cases p; cases i) (simp_all add: get_prop_addSendingStats get_prop_EMPTY del: js_add.simps)

lemma collect_emailsBounced:
  "emailsBounced (stats (collect a e p i)) =
     js_add (contribution p ''emailsBounced'') (contribution i ''emailsBounced'')"
  unfolding collect_def Let_def contribution_def
  by (cases p; cases i) (simp_all add: get_prop_addSendingStats get_prop_EMPTY del: js_add.simps)

lemma collect_repliesWillingToMeet:
  "repliesWillingToMeet (stats (collect a e p i)) =
     js_add (contribution p ''repliesWillingToMeet'') (contribution i ''repliesWillingToMeet'')"
  unfolding collect_def Let_def contribution_def
  by (cases p; cases i) (simp_all add: get_prop_addSendingStats get_prop_EMPTY del: js_add.simps)

lemma collect_repliesInterested:
  "repliesInterested (stats (collect a e p i)) =
     js_add (contribution p ''repliesInterested'') (contribution i ''repliesInterested'')"
  unfolding collect_def Let_def contribution_def
  by (cases p; cases i) (simp_all add: get_prop_addSendingStats get_prop_EMPTY del: js_add.simps)

lemma collect_repliesNotInterested:
  "repliesNotInterested (stats (collect a e p i)) =
     js_add (contribution p ''repliesNotInterested'') (contribution i ''repliesNotInterested'')"
  unfolding collect_def Let_def contribution_def
  by (cases p; cases i) (simp_all add: get_prop_addSendingStats get_prop_EMPTY del: js_add.simps)

lemma collect_repliesOutOfOffice:
  "repliesOutOfOffice (stats (collect a e p i)) =
     js_add (contribution p ''repliesOutOfOffice'') (contribution i ''repliesOutOfOffice'')"
  unfolding collect_def Let_def contribution_def
  by (cases p; cases i) (simp_all add: get_prop_addSendingStats get_prop_EMPTY del: js_add.simps)

lemma collect_repliesUnsubscribe:
  "repliesUnsubscribe (stats (collect a e p i)) =
     js_add (contribution p ''repliesUnsubscribe'') (contribution i ''repliesUnsubscribe'')"
  unfolding collect_def Let_def contribution_def
  by (cases p; cases i) (simp_all add: get_prop_addSendingStats get_prop_EMPTY del: js_add.simps)

lemmas collect_sending =
  collect_emailsSent
  collect_emailsOpened
  collect_emailsClicked
  collect_emailsReplied
  collect_emailsBounced
  collect_repliesWillingToMeet
  collect_repliesInterested
  collect_repliesNotInterested
  collect_repliesOutOfOffice
  collect_repliesUnsubscribe

lemma collect_sending_counters:
  "list_all (\<lambda>(k, f). f (stats (collect a e p i)) = js_add (contribution p k) (contribution i k))
     sending_counters"
  unfolding sending_counters_def by (simp add: collect_sending del: js_add.simps)

lemma stats_eqI:
  fixes s t :: AggregatedStats
  assumes "leadsFound s = leadsFound t" "emailsGenerated s = emailsGenerated t"
    "list_all (\<lambda>(k, f). f s = f t) sending_counters"
  shows "s = t"
  using assms unfolding sending_counters_def by (cases s; cases t) simp

lemma collect_all_failed:
  "stats (collect (Fail s1 x1) (Fail s2 x2) (Fail s3 x3) (Fail s4 x4)) = emptyStats"
  by (rule stats_eqI)
     (simp_all add: collect_leadsFound collect_emailsGenerated collect_sending
        sending_counters_def contribution_def emptyStats_def)

lemma outcomes_nonempty:
  assumes "ids \<noteq> []" and "dispatchAll env net log ids org = ((a, e, p, i), log')"
  shows "outcomes env net log ids org =
           [(''apollo'', a), (''emailgen'', e), (''postmark'', p), (''instantly'', i)]"
  using assms by (simp add: outcomes_def)

lemma dispatchAll_ex: "\<exists>a e p i log'. dispatchAll env net log ids org = ((a, e, p, i), log')"
  by (simp add: dispatchAll_eq)


lemma errors_of_outcomes:
  assumes "\<And>s x. a = Fail s x \<Longrightarrow> s = ''apollo''"
    and "\<And>s x. e = Fail s x \<Longrightarrow> s = ''emailgen''"
    and "\<And>s x. p = Fail s x \<Longrightarrow> s = ''postmark''"
    and "\<And>s x. i = Fail s x \<Longrightarrow> s = ''instantly''"
  shows "errors (collect a e p i) =
           map (\<lambda>(n, res). \<lparr>service = n, error = reason res\<rparr>)
             (filter (\<lambda>(n, res). \<not> is_ok res)
                [(''apollo'', a), (''emailgen'', e), (''postmark'', p), (''instantly'', i)])"
  using assms by (cases a; cases e; cases p; cases i) (simp_all add: collect_errors)

subsection \<open>The scenarios of the unit tests, evaluated\<close>

lemma dispatch_all_succeed:
  "dispatchAll no_env
     (mockFetch [Inr (okResponse APOLLO_STATS), Inr (okResponse EMAILGEN_STATS),
                 Inr (okResponse POSTMARK_STATS), Inr (okResponse INSTANTLY_STATS)])
     [] [''run-1''] ''org-1'' =
   ((Ok APOLLO_STATS, Ok EMAILGEN_STATS, Ok POSTMARK_STATS, Ok INSTANTLY_STATS),
    upstream_requests no_env [''run-1''] ''org-1'')"
  by (simp add: dispatchAll_eq classify_def mockFetch_def okResponse_def)

lemma dispatch_postmark_fails:
  "dispatchAll no_env
     (mockFetch [Inr (okResponse APOLLO_STATS), Inr (okResponse EMAILGEN_STATS),
                 Inr (errorResponse 500), Inr (okResponse INSTANTLY_STATS)])
     [] [''run-1''] ''org-1'' =
   ((Ok APOLLO_STATS, Ok EMAILGEN_STATS, Fail ''postmark'' ''HTTP 500'', Ok INSTANTLY_STATS),
    upstream_requests no_env [''run-1''] ''org-1'')"
  by (simp add: dispatchAll_eq classify_def mockFetch_def okResponse_def errorResponse_def
        string_of_nat.simps digit_char_def)


lemma dispatch_missing_stats:
  "dispatchAll no_env
     (mockFetch [Inr (okResponse APOLLO_STATS), Inr emptyOk, Inr nullStats,
                 Inr (okResponse INSTANTLY_STATS)])
     [] [''run-1''] ''org-1'' =
   ((Ok APOLLO_STATS, Fail ''emailgen'' ''no stats in response'',
     Fail ''postmark'' ''no stats in response'', Ok INSTANTLY_STATS),
    upstream_requests no_env [''run-1''] ''org-1'')"
  by (simp add: dispatchAll_eq classify_def mockFetch_def okResponse_def emptyOk_def
        nullStats_def)



lemma dispatch_absent_counter:
  "dispatchAll no_env
     (mockFetch [Inr (okResponse Map.empty), Inr (okResponse EMAILGEN_STATS),
                 Inr (okResponse (map_of [(''emailsSent'', Num 5)])),
                 Inr (okResponse INSTANTLY_STATS)])
     [] [''run-1''] ''org-1'' =
   ((Ok Map.empty, Ok EMAILGEN_STATS, Ok (map_of [(''emailsSent'', Num 5)]), Ok INSTANTLY_STATS),
    upstream_requests no_env [''run-1''] ''org-1'')"
  by (simp add: dispatchAll_eq classify_def mockFetch_def okResponse_def)



section \<open>Properties of the grouping of leads\<close>

lemma map_of_map_set: "map_of (map_set k v m) = (map_of m)(k \<mapsto> v)"
  by (induction m) (auto simp: fun_eq_iff)

lemma in_map_set: "(a, b) \<in> set (map_set k v m) \<Longrightarrow> a = k \<or> (a, b) \<in> set m"
  by (induction m) (auto split: if_splits)

lemma distinct_map_set: "distinct (map fst m) \<Longrightarrow> distinct (map fst (map_set k v m))"
proof (induction m)
  case Nil
  then show ?case by simp
next
  case (Cons q m)
  obtain a b where q: "q = (a, b)" by (cases q)
  show ?case
  proof (cases "a = k")
    case True
    with Cons.prems q show ?thesis by simp
  next
    case False
    have "a \<notin> fst ` set (map_set k v m)"
    proof
      assume "a \<in> fst ` set (map_set k v m)"
      then obtain c where "(a, c) \<in> set (map_set k v m)" by auto
      with False have "(a, c) \<in> set m" using in_map_set by fastforce
      then have "a \<in> fst ` set m" by (rule rev_image_eqI) simp
      with Cons.prems q show False by simp
    qed
    with Cons q False show ?thesis by simp
  qed
qed

lemma leads_of_snoc:
  "leads_of n (seen @ [l]) =
     (if organizationName l = Some n then leads_of n seen @ [l] else leads_of n seen)"
  by (simp add: leads_of_def)

lemma entry_of_snoc:
  assumes "ls \<noteq> []"
  shows "entry_of n (ls @ [l]) =
           (entry_of n ls)\<lparr>leadsCount := leadsCount (entry_of n ls) + 1,
                           enrichmentRunIds :=
                             enrichmentRunIds (entry_of n ls) @ run_id_list (enrichmentRunId l)\<rparr>"
  using assms by (simp add: entry_of_def run_ids_of_def)

lemma entry_of_single:
  "entry_of n [l] =
     \<lparr>name = n, domain = or_null (organizationDomain l),
      industry = or_null (organizationIndustry l),
      employeeCount = or_null (organizationSize l),
      leadsCount = 1, enrichmentRunIds = run_id_list (enrichmentRunId l)\<rparr>"
  by (simp add: entry_of_def run_ids_of_def)

lemma visit_skips:
  "\<not> truthy (organizationName l) \<Longrightarrow> visit l m = m"
  by (cases "organizationName l") (simp_all add: visit_def)

lemma grouped_visit:
  assumes "grouped m seen"
  shows "grouped (visit l m) (seen @ [l])"
proof (cases "truthy (organizationName l)")
  case False
  then have "\<And>n. n \<noteq> [] \<Longrightarrow> organizationName l \<noteq> Some n"
    by (cases "organizationName l") auto
  then have "\<And>n. n \<noteq> [] \<Longrightarrow> leads_of n (seen @ [l]) = leads_of n seen"
    by (simp add: leads_of_snoc)
  then have "\<And>n. (n \<noteq> [] \<and> leads_of n (seen @ [l]) \<noteq> []) = (n \<noteq> [] \<and> leads_of n seen \<noteq> [])"
    "\<And>n. n \<noteq> [] \<Longrightarrow> entry_of n (leads_of n (seen @ [l])) = entry_of n (leads_of n seen)"
    by auto
  with assms False show ?thesis
    by (simp add: visit_skips grouped_def)
next
  case True
  then obtain org where org: "organizationName l = Some org" "org \<noteq> []"
    by (cases "organizationName l") auto
  have dist: "distinct (map fst m)"
    and look: "\<And>n. map_of m n =
            (if n \<noteq> [] \<and> leads_of n seen \<noteq> [] then Some (entry_of n (leads_of n seen))
             else None)"
    using assms by (simp_all add: grouped_def)
  have other: "\<And>n. n \<noteq> org \<Longrightarrow> leads_of n (seen @ [l]) = leads_of n seen"
    using org by (simp add: leads_of_snoc)
  have own: "leads_of org (seen @ [l]) = leads_of org seen @ [l]"
    using org by (simp add: leads_of_snoc)
  show ?thesis
  proof (cases "leads_of org seen = []")
    case True
    then have none: "map_of m org = None" using look [of org] by simp
    have v: "visit l m = map_set org (entry_of org [l]) m"
      using org none by (simp add: visit_def entry_of_single)
    show ?thesis
      unfolding grouped_def v using dist look other own True org
      by (auto simp: map_of_map_set distinct_map_set)
  next
    case False
    then have some: "map_of m org = Some (entry_of org (leads_of org seen))"
      using look [of org] org by simp
    have v: "visit l m = map_set org (entry_of org (leads_of org seen @ [l])) m"
      using org some by (simp add: visit_def entry_of_snoc [OF False])
    show ?thesis
      unfolding grouped_def v using dist look other own False org
      by (auto simp: map_of_map_set distinct_map_set)
  qed
qed

lemma grouped_group_leads:
  "grouped m seen \<Longrightarrow> grouped (group_leads ls m) (seen @ ls)"
proof (induction ls arbitrary: m seen)
  case Nil
  then show ?case by simp
next
  case (Cons l ls)
  have "grouped (group_leads ls (visit l m)) ((seen @ [l]) @ ls)"
    by (rule Cons.IH) (rule grouped_visit [OF Cons.prems])
  then show ?case by simp
qed

lemma grouped_all: "grouped (group_leads leads []) leads"
  using grouped_group_leads [of "[]" "[]" leads] by (simp add: grouped_def leads_of_def)

lemma grouped_entry:
  assumes "grouped m seen" and "(n, d) \<in> set m"
  shows "n \<noteq> [] \<and> leads_of n seen \<noteq> [] \<and> d = entry_of n (leads_of n seen)"
proof -
  have dist: "distinct (map fst m)"
    using assms(1) by (simp add: grouped_def)
  have "map_of m n = Some d"
    by (rule map_of_is_SomeI [OF dist assms(2)])
  moreover have "map_of m n =
      (if n \<noteq> [] \<and> leads_of n seen \<noteq> [] then Some (entry_of n (leads_of n seen)) else None)"
    using assms(1) by (simp add: grouped_def)
  ultimately show ?thesis
    by (auto split: if_splits)
qed

lemma grouped_keys:
  assumes "grouped m seen"
  shows "set (map fst m) = {n. n \<noteq> [] \<and> leads_of n seen \<noteq> []}"
proof -
  have "set (map fst m) = dom (map_of m)" by (simp add: dom_map_of_conv_image_fst)
  also have "\<dots> = {n. n \<noteq> [] \<and> leads_of n seen \<noteq> []}"
    using assms unfolding grouped_def dom_def by auto
  finally show ?thesis .
qed

lemma group_leads_filter:
  "group_leads (filter (\<lambda>l. truthy (organizationName l)) ls) m = group_leads ls m"
  by (induction ls arbitrary: m) (simp_all add: visit_skips)

lemma name_with_id: "name (with_id k d) = name d"
  by (simp add: with_id_def)

lemma companies_in_map:
  assumes "c \<in> set (aggregateCompaniesFromLeads leads)"
  shows "\<exists>k n d. (n, d) \<in> set (group_leads leads []) \<and> c = with_id k d"
proof -
  from assms obtain x where x: "x \<in> set (enumerate 0 (group_leads leads []))"
    and c: "c = (\<lambda>(index, (n, d)). with_id index d) x"
    unfolding aggregateCompaniesFromLeads_def by auto
  obtain k n d where xe: "x = (k, (n, d))" by (metis prod.collapse)
  have "snd x \<in> snd ` set (enumerate 0 (group_leads leads []))"
    using x by (rule imageI)
  then have "snd x \<in> set (group_leads leads [])"
    by (simp only: set_map [symmetric] map_snd_enumerate)
  then have "(n, d) \<in> set (group_leads leads [])"
    by (simp add: xe)
  with c xe show ?thesis by auto
qed

lemma map_snd_of_enumerate: "map (\<lambda>x. f (snd x)) (enumerate k xs) = map f xs"
  by (induction xs arbitrary: k) simp_all

lemma company_names:
  "map name (aggregateCompaniesFromLeads leads) = map fst (group_leads leads [])"
proof -
  have e: "\<And>p. p \<in> set (group_leads leads []) \<Longrightarrow> name (snd p) = fst p"
  proof -
    fix p assume "p \<in> set (group_leads leads [])"
    then have "(fst p, snd p) \<in> set (group_leads leads [])" by simp
    from grouped_entry [OF grouped_all this] show "name (snd p) = fst p"
      by (simp add: entry_of_def)
  qed
  have "map name (aggregateCompaniesFromLeads leads)
          = map (\<lambda>x. name (snd (snd x))) (enumerate 0 (group_leads leads []))"
    unfolding aggregateCompaniesFromLeads_def by (simp add: case_prod_beta name_with_id)
  also have "\<dots> = map (\<lambda>p. name (snd p)) (group_leads leads [])"
    by (rule map_snd_of_enumerate)
  also have "\<dots> = map fst (group_leads leads [])"
    using e by (simp cong: map_cong)
  finally show ?thesis .
qed

section \<open>The claims\<close>

text \<open>
  C1. A call of \<open>getAggregatedStats\<close> with run identifiers dispatches the four upstream
  requests, and nothing else; with none it dispatches nothing. The list of errors is
  empty if and only if every dispatched call succeeded, that is, the network answered
  each of the four requests with a successful status and a \<open>stats\<close> that is neither
  absent nor \<open>null\<close>. When all four calls fail, the result has four errors, one per
  upstream, and statistics that are all zero. The function is total: it returns a
  result, whose \<open>stats\<close> is a record of counters, for every list of run identifiers,
  every organisation and every behaviour of the network.
\<close>

theorem getAggregatedStats_errors_empty_iff:
  "snd (getAggregatedStats env net log ids org)
     = log @ (if ids = [] then [] else upstream_requests env ids org)
   \<and> (errors (fst (getAggregatedStats env net log ids org)) = []
        \<longleftrightarrow> ids = []
            \<or> list_all (\<lambda>j. answers_stats (net (length log + j) (upstream_requests env ids org ! j)))
                 [0, 1, 2, 3])
   \<and> (ids \<noteq> []
        \<and> list_all (\<lambda>j. \<not> answers_stats (net (length log + j) (upstream_requests env ids org ! j)))
             [0, 1, 2, 3]
        \<longrightarrow> map service (errors (fst (getAggregatedStats env net log ids org)))
              = [''apollo'', ''emailgen'', ''postmark'', ''instantly'']
          \<and> length (errors (fst (getAggregatedStats env net log ids org))) = 4
          \<and> stats (fst (getAggregatedStats env net log ids org)) = emptyStats)"
proof (cases "ids = []")
  case True
  then show ?thesis by (simp add: getAggregatedStats_def)
next
  case False
  let ?a = "classify ''apollo'' (net (length log) (upstream_requests env ids org ! 0))"
  let ?e = "classify ''emailgen'' (net (length log + 1) (upstream_requests env ids org ! 1))"
  let ?p = "classify ''postmark'' (net (length log + 2) (upstream_requests env ids org ! 2))"
  let ?i = "classify ''instantly'' (net (length log + 3) (upstream_requests env ids org ! 3))"
  have d: "dispatchAll env net log ids org = ((?a, ?e, ?p, ?i), log @ upstream_requests env ids org)"
    by (rule dispatchAll_eq)
  have g: "getAggregatedStats env net log ids org
             = (collect ?a ?e ?p ?i, log @ upstream_requests env ids org)"
    by (rule getAggregatedStats_nonempty [OF False d])
  have ok: "is_ok ?a = answers_stats (net (length log) (upstream_requests env ids org ! 0))"
    "is_ok ?e = answers_stats (net (length log + 1) (upstream_requests env ids org ! 1))"
    "is_ok ?p = answers_stats (net (length log + 2) (upstream_requests env ids org ! 2))"
    "is_ok ?i = answers_stats (net (length log + 3) (upstream_requests env ids org ! 3))"
    by (simp_all only: is_ok_classify)
  have names: "\<And>s x. ?a = Fail s x \<Longrightarrow> s = ''apollo''" "\<And>s x. ?e = Fail s x \<Longrightarrow> s = ''emailgen''"
    "\<And>s x. ?p = Fail s x \<Longrightarrow> s = ''postmark''" "\<And>s x. ?i = Fail s x \<Longrightarrow> s = ''instantly''"
    by (auto dest: classify_service)
  have er: "errors (collect ?a ?e ?p ?i) =
           map (\<lambda>(n, res). \<lparr>service = n, error = reason res\<rparr>)
             (filter (\<lambda>(n, res). \<not> is_ok res)
                [(''apollo'', ?a), (''emailgen'', ?e), (''postmark'', ?p), (''instantly'', ?i)])"
    using names by (rule errors_of_outcomes)
  have zero: "\<not> is_ok ?a \<and> \<not> is_ok ?e \<and> \<not> is_ok ?p \<and> \<not> is_ok ?i
      \<longrightarrow> stats (collect ?a ?e ?p ?i) = emptyStats"
    by (cases ?a; cases ?e; cases ?p; cases ?i) (simp_all add: collect_all_failed)
  show ?thesis
    unfolding g using False er zero ok by (simp del: is_ok.simps)
qed

text \<open>
  The tests "reports 4 errors when all services fail", in which every upstream answers
  503, and "returns correct stats when all 4 services respond".
\<close>

theorem getAggregatedStats_errors_empty_iff_witness:
  "map service (errors (fst (getAggregatedStats no_env
           (mockFetch [Inr (errorResponse 503), Inr (errorResponse 503),
                       Inr (errorResponse 503), Inr (errorResponse 503)])
           [] [''run-1''] ''org-1'')))
     = [''apollo'', ''emailgen'', ''postmark'', ''instantly'']
   \<and> stats (fst (getAggregatedStats no_env
           (mockFetch [Inr (errorResponse 503), Inr (errorResponse 503),
                       Inr (errorResponse 503), Inr (errorResponse 503)])
           [] [''run-1''] ''org-1'')) = emptyStats
   \<and> errors (fst (getAggregatedStats no_env
           (mockFetch [Inr (okResponse APOLLO_STATS), Inr (okResponse EMAILGEN_STATS),
                       Inr (okResponse POSTMARK_STATS), Inr (okResponse INSTANTLY_STATS)])
           [] [''run-1''] ''org-1'')) = []
   \<and> map url (snd (getAggregatedStats no_env
           (mockFetch [Inr (okResponse APOLLO_STATS), Inr (okResponse EMAILGEN_STATS),
                       Inr (okResponse POSTMARK_STATS), Inr (okResponse INSTANTLY_STATS)])
           [] [''run-1''] ''org-1''))
     = [''http://localhost:3003/stats'', ''http://localhost:3004/stats'',
        ''http://localhost:3006/stats'', ''http://localhost:3007/stats'']"
proof -
  let ?down = "mockFetch [Inr (errorResponse 503), Inr (errorResponse 503),
                Inr (errorResponse 503), Inr (errorResponse 503)] :: payload network"
  let ?up = "mockFetch [Inr (okResponse APOLLO_STATS), Inr (okResponse EMAILGEN_STATS),
               Inr (okResponse POSTMARK_STATS), Inr (okResponse INSTANTLY_STATS)]"
  have n: "[''run-1''] \<noteq> ([] :: string list)" by simp
  have hd: "list_all (\<lambda>j. \<not> answers_stats
               (?down (length ([] :: request list) + j)
                  (upstream_requests no_env [''run-1''] ''org-1'' ! j))) [0, 1, 2, 3]"
    by (simp add: answers_stats_def mockFetch_def errorResponse_def)
  have hu: "list_all (\<lambda>j. answers_stats
               (?up (length ([] :: request list) + j)
                  (upstream_requests no_env [''run-1''] ''org-1'' ! j))) [0, 1, 2, 3]"
    by (simp add: answers_stats_def mockFetch_def okResponse_def)
  have urls: "map url ([] @ (if [''run-1''] = ([] :: string list) then []
                else upstream_requests no_env [''run-1''] ''org-1''))
     = [''http://localhost:3003/stats'', ''http://localhost:3004/stats'',
        ''http://localhost:3006/stats'', ''http://localhost:3007/stats'']"
    by (simp add: upstream_requests_def stats_request_def no_env_def APOLLO_SERVICE_URL_def
          EMAILGENERATION_SERVICE_URL_def POSTMARK_SERVICE_URL_def INSTANTLY_SERVICE_URL_def)
  note down = getAggregatedStats_errors_empty_iff [of no_env ?down "[]" "[''run-1'']" "''org-1''"]
  note up = getAggregatedStats_errors_empty_iff [of no_env ?up "[]" "[''run-1'']" "''org-1''"]
  have a: "map service (errors (fst (getAggregatedStats no_env ?down [] [''run-1''] ''org-1'')))
             = [''apollo'', ''emailgen'', ''postmark'', ''instantly'']
           \<and> stats (fst (getAggregatedStats no_env ?down [] [''run-1''] ''org-1'')) = emptyStats"
    using n hd down by blast
  have b: "errors (fst (getAggregatedStats no_env ?up [] [''run-1''] ''org-1'')) = []"
    using hu up by blast
  have c: "snd (getAggregatedStats no_env ?up [] [''run-1''] ''org-1'')
             = [] @ (if [''run-1''] = ([] :: string list) then []
                     else upstream_requests no_env [''run-1''] ''org-1'')"
    using up by blast
  show ?thesis
    using a b urls unfolding c by blast
qed

text \<open>
  C2. For the empty list of run identifiers, \<open>getAggregatedStats\<close> returns statistics in
  which each of the twelve counters is zero and an empty list of errors, and it issues no
  request: the log of requests is the one it was called with.
\<close>

theorem getAggregatedStats_no_runs:
  "snd (getAggregatedStats env net log [] org) = log
   \<and> errors (fst (getAggregatedStats env net log [] org)) = []
   \<and> leadsFound (stats (fst (getAggregatedStats env net log [] org))) = Num 0
   \<and> emailsGenerated (stats (fst (getAggregatedStats env net log [] org))) = Num 0
   \<and> list_all (\<lambda>(k, f). f (stats (fst (getAggregatedStats env net log [] org))) = Num 0)
        sending_counters"
  by (simp add: getAggregatedStats_def emptyStats_def sending_counters_def)




text \<open>
  C4. The claim is that an absent counter of a successful payload counts as zero for every
  field. The code does so for \<open>leadsFound\<close> and \<open>emailsGenerated\<close>, with \<open>?? 0\<close>; it
  does not for the email-sending counters, which \<open>addSendingStats\<close> adds as they are.
  Here apollo answers \<open>{ stats: {} }\<close> and postmark \<open>{ stats: { emailsSent: 5 } }\<close>:
  no upstream is marked as failed and \<open>leadsFound\<close> is 0, but \<open>emailsOpened\<close>, where
  instantly reports 2, is \<open>NaN\<close>.
\<close>

theorem absent_sending_counter_gives_NaN:
  "errors (fst (getAggregatedStats no_env
       (mockFetch [Inr (okResponse Map.empty), Inr (okResponse EMAILGEN_STATS),
                   Inr (okResponse (map_of [(''emailsSent'', Num 5)])),
                   Inr (okResponse INSTANTLY_STATS)])
       [] [''run-1''] ''org-1'')) = []
   \<and> leadsFound (stats (fst (getAggregatedStats no_env
       (mockFetch [Inr (okResponse Map.empty), Inr (okResponse EMAILGEN_STATS),
                   Inr (okResponse (map_of [(''emailsSent'', Num 5)])),
                   Inr (okResponse INSTANTLY_STATS)])
       [] [''run-1''] ''org-1''))) = Num 0
   \<and> emailsSent (stats (fst (getAggregatedStats no_env
       (mockFetch [Inr (okResponse Map.empty), Inr (okResponse EMAILGEN_STATS),
                   Inr (okResponse (map_of [(''emailsSent'', Num 5)])),
                   Inr (okResponse INSTANTLY_STATS)])
       [] [''run-1''] ''org-1''))) = Num 9
   \<and> get_prop INSTANTLY_STATS ''emailsOpened'' = Num 2
   \<and> emailsOpened (stats (fst (getAggregatedStats no_env
       (mockFetch [Inr (okResponse Map.empty), Inr (okResponse EMAILGEN_STATS),
                   Inr (okResponse (map_of [(''emailsSent'', Num 5)])),
                   Inr (okResponse INSTANTLY_STATS)])
       [] [''run-1''] ''org-1''))) = NaN"
proof -
  have n: "[''run-1''] \<noteq> ([] :: string list)" by simp
  show ?thesis
    unfolding getAggregatedStats_nonempty [OF n dispatch_absent_counter]
    by (simp add: collect_errors collect_leadsFound collect_emailsSent collect_emailsOpened
          contribution_def get_prop_def INSTANTLY_STATS_def)
qed

text \<open>
  C5. The claim is that every upstream request of the statistics component, that of
  \<open>getStatsByModel\<close> included, classifies a successful response whose \<open>stats\<close> is
  absent or \<open>null\<close> as the failure \<open>no stats in response\<close>, with one error for the
  provider. \<open>fetchStats\<close> does so. \<open>getStatsByModel\<close>, which has \<open>data.stats || []\<close>,
  does not: here emailgen answers 200 with \<open>{ stats: null }\<close>, which through
  \<open>fetchStats\<close> is the failure, and through \<open>getStatsByModel\<close> is empty statistics
  with no error.
\<close>

theorem getStatsByModel_null_stats_no_error:
  "no_stats (nullStats :: ModelStats list response)
   \<and> getStatsByModel no_env (mockFetch [Inr nullStats]) [] [''run-1'']
       = (\<lparr>stats = [], errors = []\<rparr>, [by_model_request no_env [''run-1'']])
   \<and> errors (fst (getStatsByModel no_env (mockFetch [Inr nullStats]) [] [''run-1'']))
       \<noteq> [\<lparr>service = ''emailgen'', error = ''no stats in response''\<rparr>]
   \<and> fst (fetchStats (mockFetch [Inr nullStats]) [] ''http://localhost:3004/stats''
          ''emailgen'' ''org-1'' [''run-1''] None)
       = (Fail ''emailgen'' ''no stats in response'' :: payload ServiceResult)"
  by (simp add: getStatsByModel_def getStatsByModel_try_def fetch_def mockFetch_def
        nullStats_def no_stats_def fetchStats_eq classify_def)

text \<open>
  The path through \<open>fetchStats\<close>, in general: it classifies a successful response whose
  \<open>stats\<close> is absent or \<open>null\<close> as the failure \<open>no stats in response\<close>, and in
  \<open>getAggregatedStats\<close>, whose four requests go through it, such a response gives exactly
  one error for its provider, and the provider contributes zero to each counter it
  sources.
\<close>

lemma fetchStats_no_stats_is_failure:
  "(net0 (length log) (stats_request u org b k) = Inr response0 \<and> no_stats response0
      \<longrightarrow> fst (fetchStats net0 log u s org b k)
            = (Fail s ''no stats in response'' :: payload ServiceResult))
   \<and> (ids \<noteq> [] \<and> dispatchAll env net log ids org = ((a, e, p, i), log')
        \<and> net (length log) (upstream_requests env ids org ! 0) = Inr response \<and> no_stats response
      \<longrightarrow> a = Fail ''apollo'' ''no stats in response''
          \<and> filter (\<lambda>x. service x = ''apollo'') (errors (fst (getAggregatedStats env net log ids org)))
              = [\<lparr>service = ''apollo'', error = ''no stats in response''\<rparr>]
          \<and> leadsFound (stats (fst (getAggregatedStats env net log ids org))) = Num 0)
   \<and> (ids \<noteq> [] \<and> dispatchAll env net log ids org = ((a, e, p, i), log')
        \<and> net (length log + 1) (upstream_requests env ids org ! 1) = Inr response
        \<and> no_stats response
      \<longrightarrow> e = Fail ''emailgen'' ''no stats in response''
          \<and> filter (\<lambda>x. service x = ''emailgen'') (errors (fst (getAggregatedStats env net log ids org)))
              = [\<lparr>service = ''emailgen'', error = ''no stats in response''\<rparr>]
          \<and> emailsGenerated (stats (fst (getAggregatedStats env net log ids org))) = Num 0)
   \<and> (ids \<noteq> [] \<and> dispatchAll env net log ids org = ((a, e, p, i), log')
        \<and> net (length log + 2) (upstream_requests env ids org ! 2) = Inr response
        \<and> no_stats response
      \<longrightarrow> p = Fail ''postmark'' ''no stats in response''
          \<and> filter (\<lambda>x. service x = ''postmark'') (errors (fst (getAggregatedStats env net log ids org)))
              = [\<lparr>service = ''postmark'', error = ''no stats in response''\<rparr>]
          \<and> list_all (\<lambda>(k, f). f (stats (fst (getAggregatedStats env net log ids org)))
                                 = js_add (Num 0) (contribution i k))
               sending_counters)
   \<and> (ids \<noteq> [] \<and> dispatchAll env net log ids org = ((a, e, p, i), log')
        \<and> net (length log + 3) (upstream_requests env ids org ! 3) = Inr response
        \<and> no_stats response
      \<longrightarrow> i = Fail ''instantly'' ''no stats in response''
          \<and> filter (\<lambda>x. service x = ''instantly'') (errors (fst (getAggregatedStats env net log ids org)))
              = [\<lparr>service = ''instantly'', error = ''no stats in response''\<rparr>]
          \<and> list_all (\<lambda>(k, f). f (stats (fst (getAggregatedStats env net log ids org)))
                                 = js_add (contribution p k) (Num 0))
               sending_counters)"
proof -
  have cl: "\<And>s (r :: payload response). no_stats r \<Longrightarrow> classify s (Inr r) = Fail s ''no stats in response''"
    by (auto simp: no_stats_def classify_def)
  have f: "net0 (length log) (stats_request u org b k) = Inr response0 \<and> no_stats response0
      \<longrightarrow> fst (fetchStats net0 log u s org b k)
            = (Fail s ''no stats in response'' :: payload ServiceResult)"
    by (simp add: fetchStats_eq cl)
  have agg: "ids \<noteq> [] \<and> dispatchAll env net log ids org = ((a, e, p, i), log')
      \<longrightarrow> fst (getAggregatedStats env net log ids org) = collect a e p i
        \<and> errors (collect a e p i) =
           map (\<lambda>(n, res). \<lparr>service = n, error = reason res\<rparr>)
             (filter (\<lambda>(n, res). \<not> is_ok res)
                [(''apollo'', a), (''emailgen'', e), (''postmark'', p), (''instantly'', i)])
        \<and> a = classify ''apollo'' (net (length log) (upstream_requests env ids org ! 0))
        \<and> e = classify ''emailgen'' (net (length log + 1) (upstream_requests env ids org ! 1))
        \<and> p = classify ''postmark'' (net (length log + 2) (upstream_requests env ids org ! 2))
        \<and> i = classify ''instantly'' (net (length log + 3) (upstream_requests env ids org ! 3))"
  proof (intro impI, elim conjE)
    assume n: "ids \<noteq> []" and d: "dispatchAll env net log ids org = ((a, e, p, i), log')"
    have g: "fst (getAggregatedStats env net log ids org) = collect a e p i"
      using getAggregatedStats_nonempty [OF n d] by simp
    note names = dispatchAll_service [OF d]
    have er: "errors (collect a e p i) =
           map (\<lambda>(n, res). \<lparr>service = n, error = reason res\<rparr>)
             (filter (\<lambda>(n, res). \<not> is_ok res)
                [(''apollo'', a), (''emailgen'', e), (''postmark'', p), (''instantly'', i)])"
      using names by (intro errors_of_outcomes) blast+
    show "fst (getAggregatedStats env net log ids org) = collect a e p i
        \<and> errors (collect a e p i) =
           map (\<lambda>(n, res). \<lparr>service = n, error = reason res\<rparr>)
             (filter (\<lambda>(n, res). \<not> is_ok res)
                [(''apollo'', a), (''emailgen'', e), (''postmark'', p), (''instantly'', i)])
        \<and> a = classify ''apollo'' (net (length log) (upstream_requests env ids org ! 0))
        \<and> e = classify ''emailgen'' (net (length log + 1) (upstream_requests env ids org ! 1))
        \<and> p = classify ''postmark'' (net (length log + 2) (upstream_requests env ids org ! 2))
        \<and> i = classify ''instantly'' (net (length log + 3) (upstream_requests env ids org ! 3))"
      using g er d unfolding dispatchAll_eq by simp
  qed
  have c0: "ids \<noteq> [] \<and> dispatchAll env net log ids org = ((a, e, p, i), log')
        \<and> net (length log) (upstream_requests env ids org ! 0) = Inr response \<and> no_stats response
      \<longrightarrow> a = Fail ''apollo'' ''no stats in response''
          \<and> filter (\<lambda>x. service x = ''apollo'') (errors (fst (getAggregatedStats env net log ids org)))
              = [\<lparr>service = ''apollo'', error = ''no stats in response''\<rparr>]
          \<and> leadsFound (stats (fst (getAggregatedStats env net log ids org))) = Num 0"
    using agg by (auto simp: cl collect_leadsFound contribution_def)
  have c1: "ids \<noteq> [] \<and> dispatchAll env net log ids org = ((a, e, p, i), log')
        \<and> net (length log + 1) (upstream_requests env ids org ! 1) = Inr response
        \<and> no_stats response
      \<longrightarrow> e = Fail ''emailgen'' ''no stats in response''
          \<and> filter (\<lambda>x. service x = ''emailgen'') (errors (fst (getAggregatedStats env net log ids org)))
              = [\<lparr>service = ''emailgen'', error = ''no stats in response''\<rparr>]
          \<and> emailsGenerated (stats (fst (getAggregatedStats env net log ids org))) = Num 0"
    using agg by (auto simp: cl collect_emailsGenerated contribution_def)
  have c2: "ids \<noteq> [] \<and> dispatchAll env net log ids org = ((a, e, p, i), log')
        \<and> net (length log + 2) (upstream_requests env ids org ! 2) = Inr response
        \<and> no_stats response
      \<longrightarrow> p = Fail ''postmark'' ''no stats in response''
          \<and> filter (\<lambda>x. service x = ''postmark'') (errors (fst (getAggregatedStats env net log ids org)))
              = [\<lparr>service = ''postmark'', error = ''no stats in response''\<rparr>]
          \<and> list_all (\<lambda>(k, f). f (stats (fst (getAggregatedStats env net log ids org)))
                                 = js_add (Num 0) (contribution i k))
               sending_counters"
    using agg unfolding sending_counters_def
    by (auto simp: cl collect_sending contribution_def simp del: js_add.simps)
  have c3: "ids \<noteq> [] \<and> dispatchAll env net log ids org = ((a, e, p, i), log')
        \<and> net (length log + 3) (upstream_requests env ids org ! 3) = Inr response
        \<and> no_stats response
      \<longrightarrow> i = Fail ''instantly'' ''no stats in response''
          \<and> filter (\<lambda>x. service x = ''instantly'') (errors (fst (getAggregatedStats env net log ids org)))
              = [\<lparr>service = ''instantly'', error = ''no stats in response''\<rparr>]
          \<and> list_all (\<lambda>(k, f). f (stats (fst (getAggregatedStats env net log ids org)))
                                 = js_add (contribution p k) (Num 0))
               sending_counters"
    using agg unfolding sending_counters_def
    by (auto simp: cl collect_sending contribution_def simp del: js_add.simps)
  show ?thesis
    using f c0 c1 c2 c3 by blast
qed

text \<open>
  C6. \<open>fetchStats\<close> returns a classified result for every input and issues exactly one
  request: whatever the \<open>try\<close> block throws is caught and returned as a failure. A
  response whose status is not a success gives the reason \<open>HTTP <status>\<close>. A thrown
  error whose cause has the code \<open>ECONNREFUSED\<close> gives \<open>connection refused\<close>; any
  other thrown error gives its message (and a thrown value that is not an error gives
  \<open>unknown error\<close>), whether \<open>fetch\<close> throws it, or \<open>response.json()\<close>, or the read
  of \<open>stats\<close> from a body that is \<open>null\<close>. A successful response whose \<open>stats\<close> is
  absent or \<open>null\<close> gives \<open>no stats in response\<close>, and any other successful response
  gives its \<open>stats\<close>.
\<close>

theorem fetchStats_classifies:
  "snd (fetchStats net log u s org b k) = log @ [stats_request u org b k]
   \<and> (fst (fetchStats_try net log u s org b k) = Inl thrown
        \<longrightarrow> fst (fetchStats net log u s org b k) = Fail s (catch_msg thrown))
   \<and> (net (length log) (stats_request u org b k) = Inr response \<and> \<not> ok response
        \<longrightarrow> fst (fetchStats net log u s org b k)
              = Fail s (''HTTP '' @ string_of_nat (status response)))
   \<and> (net (length log) (stats_request u org b k)
          = Inl (JsError m (Some (Cause (Some ''ECONNREFUSED''))))
        \<longrightarrow> fst (fetchStats net log u s org b k) = Fail s ''connection refused'')
   \<and> (net (length log) (stats_request u org b k) = Inl (JsError m c)
          \<and> c \<noteq> Some (Cause (Some ''ECONNREFUSED''))
        \<longrightarrow> fst (fetchStats net log u s org b k) = Fail s m)
   \<and> (net (length log) (stats_request u org b k) = Inl NonError
        \<longrightarrow> fst (fetchStats net log u s org b k) = Fail s ''unknown error'')
   \<and> (net (length log) (stats_request u org b k) = Inr response \<and> ok response
          \<and> json response = Inl (JsError m (Some (Cause (Some ''ECONNREFUSED''))))
        \<longrightarrow> fst (fetchStats net log u s org b k) = Fail s ''connection refused'')
   \<and> (net (length log) (stats_request u org b k) = Inr response \<and> ok response
          \<and> json response = Inl (JsError m c) \<and> c \<noteq> Some (Cause (Some ''ECONNREFUSED''))
        \<longrightarrow> fst (fetchStats net log u s org b k) = Fail s m)
   \<and> (net (length log) (stats_request u org b k) = Inr response \<and> ok response
          \<and> json response = Inl NonError
        \<longrightarrow> fst (fetchStats net log u s org b k) = Fail s ''unknown error'')
   \<and> (net (length log) (stats_request u org b k) = Inr response \<and> ok response
          \<and> json response = Inr NullBody
        \<longrightarrow> fst (fetchStats net log u s org b k)
              = Fail s ''Cannot read properties of null (reading 'stats')'')
   \<and> (net (length log) (stats_request u org b k) = Inr response \<and> ok response
          \<and> (json response = Inr (Body Absent) \<or> json response = Inr (Body IsNull))
        \<longrightarrow> fst (fetchStats net log u s org b k) = Fail s ''no stats in response'')
   \<and> (net (length log) (stats_request u org b k) = Inr response \<and> ok response
          \<and> json response = Inr (Body (Present d))
        \<longrightarrow> fst (fetchStats net log u s org b k) = Ok d)"
proof -
  have cm: "c \<noteq> Some (Cause (Some ''ECONNREFUSED'')) \<Longrightarrow> catch_msg (JsError m c) = m"
    by (auto simp: catch_msg_def split: option.splits js_cause.splits)
  have cr: "catch_msg (JsError m (Some (Cause (Some ''ECONNREFUSED'')))) = ''connection refused''"
    "catch_msg NonError = ''unknown error''"
    "catch_msg null_read_error = ''Cannot read properties of null (reading 'stats')''"
    by (simp_all add: catch_msg_def null_read_error_def)
  have t: "fst (fetchStats_try net log u s org b k) = Inl thrown
        \<longrightarrow> fst (fetchStats net log u s org b k) = Fail s (catch_msg thrown)"
    by (auto simp: fetchStats_def split: prod.splits sum.splits)
  show ?thesis
    using cm cr t by (auto simp: fetchStats_eq classify_def)
qed

text \<open>
  The test "handles connection refused errors"; a response with status 500; a rejection
  without cause; a body that is not JSON, so that \<open>response.json()\<close> rejects; and the
  response of the tests with the statistics of apollo.
\<close>

theorem fetchStats_classifies_witness:
  "fst (fetchStats (mockFetch [Inl connError]) [] ''http://localhost:3003/stats'' ''apollo''
          ''org-1'' [''run-1''] None)
     = (Fail ''apollo'' ''connection refused'' :: payload ServiceResult)
   \<and> fst (fetchStats (mockFetch [Inr (errorResponse 500)]) [] ''http://localhost:3003/stats''
          ''apollo'' ''org-1'' [''run-1''] None)
     = (Fail ''apollo'' ''HTTP 500'' :: payload ServiceResult)
   \<and> fst (fetchStats (mockFetch [Inl (JsError ''fetch failed'' None)]) []
          ''http://localhost:3003/stats'' ''apollo'' ''org-1'' [''run-1''] None)
     = (Fail ''apollo'' ''fetch failed'' :: payload ServiceResult)
   \<and> fst (fetchStats
          (mockFetch [Inr \<lparr>ok = True, status = 200,
                           json = Inl (JsError ''Unexpected token < in JSON'' None)\<rparr>]) []
          ''http://localhost:3003/stats'' ''apollo'' ''org-1'' [''run-1''] None)
     = (Fail ''apollo'' ''Unexpected token < in JSON'' :: payload ServiceResult)
   \<and> fst (fetchStats (mockFetch [Inr (okResponse APOLLO_STATS)]) []
          ''http://localhost:3003/stats'' ''apollo'' ''org-1'' [''run-1''] None)
     = Ok APOLLO_STATS"
proof -
  let ?rq = "stats_request ''http://localhost:3003/stats'' ''org-1'' [''run-1''] None"
  let ?bad = "\<lparr>ok = True, status = 200,
               json = Inl (JsError ''Unexpected token < in JSON'' None)\<rparr> :: payload response"
  have r: "(mockFetch [Inl connError] :: payload network) (length ([] :: request list)) ?rq
             = Inl (JsError ''fetch failed'' (Some (Cause (Some ''ECONNREFUSED''))))"
    by (simp add: mockFetch_def connError_def)
  have h: "(mockFetch [Inr (errorResponse 500)] :: payload network)
             (length ([] :: request list)) ?rq = Inr (errorResponse 500)
           \<and> \<not> ok (errorResponse 500 :: payload response)"
    by (simp add: mockFetch_def errorResponse_def)
  have st: "''HTTP '' @ string_of_nat (status (errorResponse 500 :: payload response)) = ''HTTP 500''"
    by (simp add: errorResponse_def string_of_nat.simps digit_char_def)
  have g: "(mockFetch [Inl (JsError ''fetch failed'' None)] :: payload network)
             (length ([] :: request list)) ?rq = Inl (JsError ''fetch failed'' None)
           \<and> (None :: js_cause option) \<noteq> Some (Cause (Some ''ECONNREFUSED''))"
    by (simp add: mockFetch_def)
  have j: "(mockFetch [Inr ?bad] :: payload network) (length ([] :: request list)) ?rq = Inr ?bad
           \<and> ok ?bad \<and> json ?bad = Inl (JsError ''Unexpected token < in JSON'' None)
           \<and> (None :: js_cause option) \<noteq> Some (Cause (Some ''ECONNREFUSED''))"
    by (simp add: mockFetch_def)
  have p: "(mockFetch [Inr (okResponse APOLLO_STATS)] :: payload network)
             (length ([] :: request list)) ?rq = Inr (okResponse APOLLO_STATS)
           \<and> ok (okResponse APOLLO_STATS)
           \<and> json (okResponse APOLLO_STATS) = Inr (Body (Present APOLLO_STATS))"
    by (simp add: mockFetch_def okResponse_def)
  have a: "fst (fetchStats (mockFetch [Inl connError]) [] ''http://localhost:3003/stats''
                ''apollo'' ''org-1'' [''run-1''] None)
             = (Fail ''apollo'' ''connection refused'' :: payload ServiceResult)"
    using r fetchStats_classifies [where net = "mockFetch [Inl connError] :: payload network"
        and log = "[]" and u = "''http://localhost:3003/stats''" and s = "''apollo''"
        and org = "''org-1''" and b = "[''run-1'']" and k = None and m = "''fetch failed''"]
    by blast
  have b: "fst (fetchStats (mockFetch [Inr (errorResponse 500)]) []
                ''http://localhost:3003/stats'' ''apollo'' ''org-1'' [''run-1''] None)
             = (Fail ''apollo'' ''HTTP 500'' :: payload ServiceResult)"
    using h fetchStats_classifies [where net = "mockFetch [Inr (errorResponse 500)] :: payload network"
        and log = "[]" and u = "''http://localhost:3003/stats''" and s = "''apollo''"
        and org = "''org-1''" and b = "[''run-1'']" and k = None
        and response = "errorResponse 500"]
    unfolding st by blast
  have c: "fst (fetchStats (mockFetch [Inl (JsError ''fetch failed'' None)]) []
                ''http://localhost:3003/stats'' ''apollo'' ''org-1'' [''run-1''] None)
             = (Fail ''apollo'' ''fetch failed'' :: payload ServiceResult)"
    using g fetchStats_classifies
        [where net = "mockFetch [Inl (JsError ''fetch failed'' None)] :: payload network"
        and log = "[]" and u = "''http://localhost:3003/stats''" and s = "''apollo''"
        and org = "''org-1''" and b = "[''run-1'']" and k = None
        and m = "''fetch failed''" and c = None]
    by blast
  have d: "fst (fetchStats (mockFetch [Inr ?bad]) []
                ''http://localhost:3003/stats'' ''apollo'' ''org-1'' [''run-1''] None)
             = (Fail ''apollo'' ''Unexpected token < in JSON'' :: payload ServiceResult)"
    using j fetchStats_classifies
        [where net = "mockFetch [Inr ?bad] :: payload network"
        and log = "[]" and u = "''http://localhost:3003/stats''" and s = "''apollo''"
        and org = "''org-1''" and b = "[''run-1'']" and k = None and response = ?bad
        and m = "''Unexpected token < in JSON''" and c = None]
    by blast
  have e: "fst (fetchStats (mockFetch [Inr (okResponse APOLLO_STATS)]) []
                ''http://localhost:3003/stats'' ''apollo'' ''org-1'' [''run-1''] None)
             = Ok APOLLO_STATS"
    using p fetchStats_classifies
        [where net = "mockFetch [Inr (okResponse APOLLO_STATS)] :: payload network"
        and log = "[]" and u = "''http://localhost:3003/stats''" and s = "''apollo''"
        and org = "''org-1''" and b = "[''run-1'']" and k = None
        and response = "okResponse APOLLO_STATS" and d = APOLLO_STATS]
    by blast
  show ?thesis using a b c d e by simp
qed

text \<open>
  C7. Take a call in which exactly one upstream fails, and compare it with a call in which
  the other three answer the same and that upstream succeeds too. The failing call has
  exactly one error, which names the failed provider. Every counter that the failed
  provider does not source has the value it has when all four succeed. To every counter
  that it sources, the failed provider contributes zero: \<open>leadsFound\<close> (apollo) and
  \<open>emailsGenerated\<close> (emailgen) are 0, and an email-sending counter is 0 plus the value
  of the other delivery provider.
\<close>

theorem single_failure_frame:
  assumes "ids \<noteq> []"
    and "dispatchAll env net log ids org = ((a, e, p, i), log1)"
    and "dispatchAll env net' log ids org = ((a', e', p', i'), log2)"
    and "is_ok a'" and "is_ok e'" and "is_ok p'" and "is_ok i'"
  shows
   "(\<not> is_ok a \<and> e = e' \<and> p = p' \<and> i = i' \<longrightarrow>
       errors (fst (getAggregatedStats env net log ids org))
         = [\<lparr>service = ''apollo'', error = reason a\<rparr>]
       \<and> leadsFound (stats (fst (getAggregatedStats env net log ids org))) = Num 0
       \<and> emailsGenerated (stats (fst (getAggregatedStats env net log ids org)))
           = emailsGenerated (stats (fst (getAggregatedStats env net' log ids org)))
       \<and> list_all (\<lambda>(k, f). f (stats (fst (getAggregatedStats env net log ids org)))
                              = f (stats (fst (getAggregatedStats env net' log ids org))))
            sending_counters)
    \<and> (a = a' \<and> \<not> is_ok e \<and> p = p' \<and> i = i' \<longrightarrow>
       errors (fst (getAggregatedStats env net log ids org))
         = [\<lparr>service = ''emailgen'', error = reason e\<rparr>]
       \<and> leadsFound (stats (fst (getAggregatedStats env net log ids org)))
           = leadsFound (stats (fst (getAggregatedStats env net' log ids org)))
       \<and> emailsGenerated (stats (fst (getAggregatedStats env net log ids org))) = Num 0
       \<and> list_all (\<lambda>(k, f). f (stats (fst (getAggregatedStats env net log ids org)))
                              = f (stats (fst (getAggregatedStats env net' log ids org))))
            sending_counters)
    \<and> (a = a' \<and> e = e' \<and> \<not> is_ok p \<and> i = i' \<longrightarrow>
       errors (fst (getAggregatedStats env net log ids org))
         = [\<lparr>service = ''postmark'', error = reason p\<rparr>]
       \<and> leadsFound (stats (fst (getAggregatedStats env net log ids org)))
           = leadsFound (stats (fst (getAggregatedStats env net' log ids org)))
       \<and> emailsGenerated (stats (fst (getAggregatedStats env net log ids org)))
           = emailsGenerated (stats (fst (getAggregatedStats env net' log ids org)))
       \<and> list_all (\<lambda>(k, f). f (stats (fst (getAggregatedStats env net log ids org)))
                              = js_add (Num 0) (contribution i k))
            sending_counters)
    \<and> (a = a' \<and> e = e' \<and> p = p' \<and> \<not> is_ok i \<longrightarrow>
       errors (fst (getAggregatedStats env net log ids org))
         = [\<lparr>service = ''instantly'', error = reason i\<rparr>]
       \<and> leadsFound (stats (fst (getAggregatedStats env net log ids org)))
           = leadsFound (stats (fst (getAggregatedStats env net' log ids org)))
       \<and> emailsGenerated (stats (fst (getAggregatedStats env net log ids org)))
           = emailsGenerated (stats (fst (getAggregatedStats env net' log ids org)))
       \<and> list_all (\<lambda>(k, f). f (stats (fst (getAggregatedStats env net log ids org)))
                              = js_add (contribution p k) (Num 0))
            sending_counters)"
proof -
  have g: "fst (getAggregatedStats env net log ids org) = collect a e p i"
    using getAggregatedStats_nonempty [OF assms(1,2)] by simp
  have g': "fst (getAggregatedStats env net' log ids org) = collect a' e' p' i'"
    using getAggregatedStats_nonempty [OF assms(1,3)] by simp
  note names = dispatchAll_service [OF assms(2)]
  have er: "errors (collect a e p i) =
           map (\<lambda>(n, res). \<lparr>service = n, error = reason res\<rparr>)
             (filter (\<lambda>(n, res). \<not> is_ok res)
                [(''apollo'', a), (''emailgen'', e), (''postmark'', p), (''instantly'', i)])"
    using names by (intro errors_of_outcomes) blast+
  have zero: "\<And>r k. \<not> is_ok r \<Longrightarrow> contribution r k = Num 0"
  proof -
    fix r :: "payload ServiceResult" and k
    assume "\<not> is_ok r"
    then show "contribution r k = Num 0" by (cases r) (simp_all add: contribution_def)
  qed
  have c1: "\<not> is_ok a \<and> e = e' \<and> p = p' \<and> i = i' \<longrightarrow>
       errors (collect a e p i) = [\<lparr>service = ''apollo'', error = reason a\<rparr>]
       \<and> leadsFound (stats (collect a e p i)) = Num 0
       \<and> emailsGenerated (stats (collect a e p i)) = emailsGenerated (stats (collect a' e' p' i'))
       \<and> list_all (\<lambda>(k, f). f (stats (collect a e p i)) = f (stats (collect a' e' p' i')))
            sending_counters"
    using assms(5,6,7) unfolding er sending_counters_def
    by (simp add: collect_leadsFound collect_emailsGenerated collect_sending zero
          del: js_add.simps)
  have c2: "a = a' \<and> \<not> is_ok e \<and> p = p' \<and> i = i' \<longrightarrow>
       errors (collect a e p i) = [\<lparr>service = ''emailgen'', error = reason e\<rparr>]
       \<and> leadsFound (stats (collect a e p i)) = leadsFound (stats (collect a' e' p' i'))
       \<and> emailsGenerated (stats (collect a e p i)) = Num 0
       \<and> list_all (\<lambda>(k, f). f (stats (collect a e p i)) = f (stats (collect a' e' p' i')))
            sending_counters"
    using assms(4,6,7) unfolding er sending_counters_def
    by (simp add: collect_leadsFound collect_emailsGenerated collect_sending zero
          del: js_add.simps)
  have c3: "a = a' \<and> e = e' \<and> \<not> is_ok p \<and> i = i' \<longrightarrow>
       errors (collect a e p i) = [\<lparr>service = ''postmark'', error = reason p\<rparr>]
       \<and> leadsFound (stats (collect a e p i)) = leadsFound (stats (collect a' e' p' i'))
       \<and> emailsGenerated (stats (collect a e p i)) = emailsGenerated (stats (collect a' e' p' i'))
       \<and> list_all (\<lambda>(k, f). f (stats (collect a e p i)) = js_add (Num 0) (contribution i k))
            sending_counters"
    using assms(4,5,7) unfolding er sending_counters_def
    by (simp add: collect_leadsFound collect_emailsGenerated collect_sending zero
          del: js_add.simps)
  have c4: "a = a' \<and> e = e' \<and> p = p' \<and> \<not> is_ok i \<longrightarrow>
       errors (collect a e p i) = [\<lparr>service = ''instantly'', error = reason i\<rparr>]
       \<and> leadsFound (stats (collect a e p i)) = leadsFound (stats (collect a' e' p' i'))
       \<and> emailsGenerated (stats (collect a e p i)) = emailsGenerated (stats (collect a' e' p' i'))
       \<and> list_all (\<lambda>(k, f). f (stats (collect a e p i)) = js_add (contribution p k) (Num 0))
            sending_counters"
    using assms(4,5,6) unfolding er sending_counters_def
    by (simp add: collect_leadsFound collect_emailsGenerated collect_sending zero
          del: js_add.simps)
  show ?thesis
    unfolding g g' using c1 c2 c3 c4 by blast
qed

text \<open>
  The test "reports error when one service fails, keeps other stats" (postmark answers
  500), compared with the test in which all four respond.
\<close>

theorem single_failure_frame_witness:
  "errors (fst (getAggregatedStats no_env
       (mockFetch [Inr (okResponse APOLLO_STATS), Inr (okResponse EMAILGEN_STATS),
                   Inr (errorResponse 500), Inr (okResponse INSTANTLY_STATS)])
       [] [''run-1''] ''org-1'')) = [\<lparr>service = ''postmark'', error = ''HTTP 500''\<rparr>]
   \<and> leadsFound (stats (fst (getAggregatedStats no_env
       (mockFetch [Inr (okResponse APOLLO_STATS), Inr (okResponse EMAILGEN_STATS),
                   Inr (errorResponse 500), Inr (okResponse INSTANTLY_STATS)])
       [] [''run-1''] ''org-1'')))
      = leadsFound (stats (fst (getAggregatedStats no_env
       (mockFetch [Inr (okResponse APOLLO_STATS), Inr (okResponse EMAILGEN_STATS),
                   Inr (okResponse POSTMARK_STATS), Inr (okResponse INSTANTLY_STATS)])
       [] [''run-1''] ''org-1'')))
   \<and> emailsSent (stats (fst (getAggregatedStats no_env
       (mockFetch [Inr (okResponse APOLLO_STATS), Inr (okResponse EMAILGEN_STATS),
                   Inr (errorResponse 500), Inr (okResponse INSTANTLY_STATS)])
       [] [''run-1''] ''org-1''))) = Num 4"
proof -
  have n: "[''run-1''] \<noteq> ([] :: string list)" by simp
  have ok: "is_ok (Ok APOLLO_STATS)" "is_ok (Ok EMAILGEN_STATS)" "is_ok (Ok POSTMARK_STATS)"
    "is_ok (Ok INSTANTLY_STATS)"
    by simp_all
  have f: "\<not> is_ok (Fail ''postmark'' ''HTTP 500'' :: payload ServiceResult)" by simp
  note t = single_failure_frame [OF n dispatch_postmark_fails dispatch_all_succeed ok]
  have c: "errors (fst (getAggregatedStats no_env
       (mockFetch [Inr (okResponse APOLLO_STATS), Inr (okResponse EMAILGEN_STATS),
                   Inr (errorResponse 500), Inr (okResponse INSTANTLY_STATS)])
       [] [''run-1''] ''org-1''))
         = [\<lparr>service = ''postmark'', error = reason (Fail ''postmark'' ''HTTP 500'' :: payload ServiceResult)\<rparr>]
       \<and> leadsFound (stats (fst (getAggregatedStats no_env
       (mockFetch [Inr (okResponse APOLLO_STATS), Inr (okResponse EMAILGEN_STATS),
                   Inr (errorResponse 500), Inr (okResponse INSTANTLY_STATS)])
       [] [''run-1''] ''org-1'')))
      = leadsFound (stats (fst (getAggregatedStats no_env
       (mockFetch [Inr (okResponse APOLLO_STATS), Inr (okResponse EMAILGEN_STATS),
                   Inr (okResponse POSTMARK_STATS), Inr (okResponse INSTANTLY_STATS)])
       [] [''run-1''] ''org-1'')))
       \<and> list_all (\<lambda>(k, f). f (stats (fst (getAggregatedStats no_env
       (mockFetch [Inr (okResponse APOLLO_STATS), Inr (okResponse EMAILGEN_STATS),
                   Inr (errorResponse 500), Inr (okResponse INSTANTLY_STATS)])
       [] [''run-1''] ''org-1'')))
                              = js_add (Num 0) (contribution (Ok INSTANTLY_STATS) k))
            sending_counters"
    using t f by blast
  have v: "js_add (Num 0) (contribution (Ok INSTANTLY_STATS) ''emailsSent'') = Num 4"
    by (simp add: contribution_def get_prop_def INSTANTLY_STATS_def)
  show ?thesis
    using c v by (simp add: sending_counters_def)
qed

text \<open>
  C8. The errors of \<open>getAggregatedStats\<close> are exactly one \<open>StatsError\<close> for each upstream
  call that failed, naming its provider and carrying its reason, in the order in which
  the calls are dispatched: apollo, emailgen, postmark, instantly. The list of errors is
  thus a function of the upstream outcomes.
\<close>

theorem errors_in_dispatch_order:
  "errors (fst (getAggregatedStats env net log ids org))
     = map (\<lambda>(n, res). \<lparr>service = n, error = reason res\<rparr>)
         (filter (\<lambda>(n, res). \<not> is_ok res) (outcomes env net log ids org))
   \<and> map fst (outcomes env net log ids org)
     = (if ids = [] then [] else [''apollo'', ''emailgen'', ''postmark'', ''instantly''])"
proof (cases "ids = []")
  case True
  then show ?thesis by (simp add: getAggregatedStats_def outcomes_def)
next
  case False
  obtain a e p i log' where d: "dispatchAll env net log ids org = ((a, e, p, i), log')"
    using dispatchAll_ex by blast
  have g: "fst (getAggregatedStats env net log ids org) = collect a e p i"
    using getAggregatedStats_nonempty [OF False d] by simp
  have oc: "outcomes env net log ids org =
           [(''apollo'', a), (''emailgen'', e), (''postmark'', p), (''instantly'', i)]"
    using outcomes_nonempty [OF False d] .
  note names = dispatchAll_service [OF d]
  have er: "errors (collect a e p i) =
           map (\<lambda>(n, res). \<lparr>service = n, error = reason res\<rparr>)
             (filter (\<lambda>(n, res). \<not> is_ok res)
                [(''apollo'', a), (''emailgen'', e), (''postmark'', p), (''instantly'', i)])"
    using names by (intro errors_of_outcomes) blast+
  show ?thesis
    unfolding g oc er using False by simp
qed

text \<open>
  The test "treats missing stats in response as error (not crash)": emailgen and
  postmark fail, and their errors come in that order.
\<close>

theorem errors_in_dispatch_order_witness:
  "errors (fst (getAggregatedStats no_env
       (mockFetch [Inr (okResponse APOLLO_STATS), Inr emptyOk, Inr nullStats,
                   Inr (okResponse INSTANTLY_STATS)])
       [] [''run-1''] ''org-1''))
     = [\<lparr>service = ''emailgen'', error = ''no stats in response''\<rparr>,
        \<lparr>service = ''postmark'', error = ''no stats in response''\<rparr>]"
proof -
  have o: "outcomes no_env
       (mockFetch [Inr (okResponse APOLLO_STATS), Inr emptyOk, Inr nullStats,
                   Inr (okResponse INSTANTLY_STATS)])
       [] [''run-1''] ''org-1''
     = [(''apollo'', Ok APOLLO_STATS), (''emailgen'', Fail ''emailgen'' ''no stats in response''),
        (''postmark'', Fail ''postmark'' ''no stats in response''),
        (''instantly'', Ok INSTANTLY_STATS)]"
    by (simp add: outcomes_def dispatch_missing_stats)
  show ?thesis
    using errors_in_dispatch_order [of no_env
        "mockFetch [Inr (okResponse APOLLO_STATS), Inr emptyOk, Inr nullStats,
                   Inr (okResponse INSTANTLY_STATS)]" "[]" "[''run-1'']" "''org-1''"]
    unfolding o by simp
qed

text \<open>
  C9. \<open>getStatsByModel\<close> with an empty list of run identifiers issues no request and
  returns empty statistics and no error. With a non-empty list it issues one request, to
  emailgen; when that call fails, by a status that is not a success or by a thrown error,
  the result has empty statistics and exactly one error, which names \<open>emailgen\<close>.
\<close>

theorem getStatsByModel_empty_and_failure:
  "getStatsByModel env net log [] = (\<lparr>stats = [], errors = []\<rparr>, log)
   \<and> (ids \<noteq> [] \<longrightarrow> snd (getStatsByModel env net log ids) = log @ [by_model_request env ids])
   \<and> (ids \<noteq> [] \<and> net (length log) (by_model_request env ids) = Inr response
         \<and> \<not> ok response
        \<longrightarrow> fst (getStatsByModel env net log ids)
              = \<lparr>stats = [],
                 errors = [\<lparr>service = ''emailgen'',
                            error = ''HTTP '' @ string_of_nat (status response)\<rparr>]\<rparr>)
   \<and> (ids \<noteq> [] \<and> net (length log) (by_model_request env ids) = Inl thrown
        \<longrightarrow> fst (getStatsByModel env net log ids)
              = \<lparr>stats = [], errors = [\<lparr>service = ''emailgen'', error = catch_msg thrown\<rparr>]\<rparr>)"
  by (auto simp: getStatsByModel_def getStatsByModel_try_def fetch_def
      split: sum.splits json_body.splits stats_field.splits)

text \<open>The tests "returns empty stats for empty runIds" and "returns error on failure".\<close>

theorem getStatsByModel_empty_and_failure_witness:
  "getStatsByModel no_env (mockFetch [Inr (errorResponse 500)]) [] []
     = (\<lparr>stats = [], errors = []\<rparr>, [])
   \<and> fst (getStatsByModel no_env (mockFetch [Inr (errorResponse 500)]) [] [''run-1''])
     = \<lparr>stats = [], errors = [\<lparr>service = ''emailgen'', error = ''HTTP 500''\<rparr>]\<rparr>"
proof -
  have h: "[''run-1''] \<noteq> ([] :: string list)
     \<and> (mockFetch [Inr (errorResponse 500)] :: ModelStats list network)
         (length ([] :: request list)) (by_model_request no_env [''run-1''])
         = Inr (errorResponse 500)
     \<and> \<not> ok (errorResponse 500 :: ModelStats list response)"
    by (simp add: mockFetch_def errorResponse_def)
  have st: "''HTTP '' @ string_of_nat (status (errorResponse 500 :: ModelStats list response))
              = ''HTTP 500''"
    by (simp add: errorResponse_def string_of_nat.simps digit_char_def)
  show ?thesis
    using h getStatsByModel_empty_and_failure
        [where env = no_env and net = "mockFetch [Inr (errorResponse 500)]" and log = "[]"
           and ids = "[''run-1'']" and response = "errorResponse 500"]
    unfolding st by blast
qed

text \<open>
  C10. The claim is that the run identifiers of a company are exactly those of its leads
  that are not \<open>null\<close>, and that its domain, industry and employee count are those of
  its first lead. The code tests the run identifier for truthiness and reads the three
  fields with \<open>|| null\<close>: an empty string is dropped, or replaced by \<open>null\<close>. Here the
  only lead, of Acme, has the empty string as run identifier and as domain.
\<close>

theorem empty_strings_are_dropped:
  "non_null_run_ids (leads_of ''Acme'' [lead_acme_1]) = ['''']
   \<and> map enrichmentRunIds (aggregateCompaniesFromLeads [lead_acme_1]) = [[]]
   \<and> organizationDomain (hd (leads_of ''Acme'' [lead_acme_1])) = Some ''''
   \<and> map domain (aggregateCompaniesFromLeads [lead_acme_1]) = [None]"
  by (simp add: aggregateCompaniesFromLeads_def visit_def with_id_def lead_acme_1_def
        leads_of_def non_null_run_ids_def)

text \<open>
  C10, amended. \<open>aggregateCompaniesFromLeads\<close> ignores every lead whose organisation
  name is \<open>null\<close> or empty, and returns exactly one company for each distinct name among
  the other leads. The \<open>leadsCount\<close> of a company is the number of leads that bear its
  name; its run identifiers are those of these leads that are neither \<open>null\<close> nor the
  empty string, in input order; its domain, industry and employee count are those of the
  first lead that bears its name, an empty string being replaced by \<open>null\<close>.
\<close>

theorem aggregateCompaniesFromLeads_groups:
  "aggregateCompaniesFromLeads (filter (\<lambda>l. truthy (organizationName l)) leads)
     = aggregateCompaniesFromLeads leads
   \<and> distinct (map name (aggregateCompaniesFromLeads leads))
   \<and> set (map name (aggregateCompaniesFromLeads leads))
       = {n. n \<noteq> [] \<and> (\<exists>l \<in> set leads. organizationName l = Some n)}
   \<and> (\<forall>c \<in> set (aggregateCompaniesFromLeads leads).
         leads_of (name c) leads \<noteq> []
         \<and> leadsCount c = length (leads_of (name c) leads)
         \<and> enrichmentRunIds c = run_ids_of (leads_of (name c) leads)
         \<and> domain c = or_null (organizationDomain (hd (leads_of (name c) leads)))
         \<and> industry c = or_null (organizationIndustry (hd (leads_of (name c) leads)))
         \<and> employeeCount c = or_null (organizationSize (hd (leads_of (name c) leads))))"
proof -
  note g = grouped_all [of leads]
  have ignore: "aggregateCompaniesFromLeads (filter (\<lambda>l. truthy (organizationName l)) leads)
     = aggregateCompaniesFromLeads leads"
    by (simp add: aggregateCompaniesFromLeads_def group_leads_filter)
  have dist: "distinct (map name (aggregateCompaniesFromLeads leads))"
    using g by (simp add: company_names grouped_def)
  have occurs: "\<And>n. (leads_of n leads \<noteq> []) = (\<exists>l \<in> set leads. organizationName l = Some n)"
    by (auto simp: leads_of_def filter_empty_conv)
  have names: "set (map name (aggregateCompaniesFromLeads leads))
       = {n. n \<noteq> [] \<and> (\<exists>l \<in> set leads. organizationName l = Some n)}"
    unfolding company_names grouped_keys [OF g] occurs ..
  have each: "\<forall>c \<in> set (aggregateCompaniesFromLeads leads).
         leads_of (name c) leads \<noteq> []
         \<and> leadsCount c = length (leads_of (name c) leads)
         \<and> enrichmentRunIds c = run_ids_of (leads_of (name c) leads)
         \<and> domain c = or_null (organizationDomain (hd (leads_of (name c) leads)))
         \<and> industry c = or_null (organizationIndustry (hd (leads_of (name c) leads)))
         \<and> employeeCount c = or_null (organizationSize (hd (leads_of (name c) leads)))"
  proof
    fix c assume "c \<in> set (aggregateCompaniesFromLeads leads)"
    then obtain k n d where nd: "(n, d) \<in> set (group_leads leads [])" and c: "c = with_id k d"
      using companies_in_map by blast
    have d: "d = entry_of n (leads_of n leads)" and ne: "leads_of n leads \<noteq> []"
      using grouped_entry [OF g nd] by simp_all
    show "leads_of (name c) leads \<noteq> []
         \<and> leadsCount c = length (leads_of (name c) leads)
         \<and> enrichmentRunIds c = run_ids_of (leads_of (name c) leads)
         \<and> domain c = or_null (organizationDomain (hd (leads_of (name c) leads)))
         \<and> industry c = or_null (organizationIndustry (hd (leads_of (name c) leads)))
         \<and> employeeCount c = or_null (organizationSize (hd (leads_of (name c) leads)))"
      unfolding c d using ne by (simp add: with_id_def entry_of_def)
  qed
  show ?thesis
    using ignore dist names each by blast
qed

text \<open>Two leads of Acme, with a lead without organisation between them.\<close>

theorem aggregateCompaniesFromLeads_groups_witness:
  "hd (aggregateCompaniesFromLeads [lead_acme_1, lead_no_org, lead_acme_2])
     \<in> set (aggregateCompaniesFromLeads [lead_acme_1, lead_no_org, lead_acme_2])
   \<and> name (hd (aggregateCompaniesFromLeads [lead_acme_1, lead_no_org, lead_acme_2])) = ''Acme''
   \<and> leadsCount (hd (aggregateCompaniesFromLeads [lead_acme_1, lead_no_org, lead_acme_2])) = 2
   \<and> enrichmentRunIds (hd (aggregateCompaniesFromLeads [lead_acme_1, lead_no_org, lead_acme_2]))
       = [''run-2'']
   \<and> domain (hd (aggregateCompaniesFromLeads [lead_acme_1, lead_no_org, lead_acme_2])) = None"
proof -
  let ?cs = "aggregateCompaniesFromLeads [lead_acme_1, lead_no_org, lead_acme_2]"
  have ev: "map name ?cs = [''Acme'']"
    by (simp add: aggregateCompaniesFromLeads_def visit_def with_id_def lead_acme_1_def
          lead_acme_2_def lead_no_org_def)
  then have ne: "?cs \<noteq> []" by auto
  then have mem: "hd ?cs \<in> set ?cs" by simp
  have nm: "name (hd ?cs) = ''Acme''"
    using ev ne by (cases ?cs) simp_all
  have ls: "leads_of ''Acme'' [lead_acme_1, lead_no_org, lead_acme_2] = [lead_acme_1, lead_acme_2]"
    by (simp add: leads_of_def lead_acme_1_def lead_acme_2_def lead_no_org_def)
  have vals: "length [lead_acme_1, lead_acme_2] = 2"
    "run_ids_of [lead_acme_1, lead_acme_2] = [''run-2'']"
    "or_null (organizationDomain (hd [lead_acme_1, lead_acme_2])) = None"
    by (simp_all add: run_ids_of_def lead_acme_1_def lead_acme_2_def)
  have "leadsCount (hd ?cs) = length (leads_of (name (hd ?cs)) [lead_acme_1, lead_no_org, lead_acme_2])
         \<and> enrichmentRunIds (hd ?cs)
             = run_ids_of (leads_of (name (hd ?cs)) [lead_acme_1, lead_no_org, lead_acme_2])
         \<and> domain (hd ?cs)
             = or_null (organizationDomain
                 (hd (leads_of (name (hd ?cs)) [lead_acme_1, lead_no_org, lead_acme_2])))"
    using aggregateCompaniesFromLeads_groups [of "[lead_acme_1, lead_no_org, lead_acme_2]"] mem
    by blast
  then show ?thesis
    unfolding nm ls vals using mem by simp
qed


end
